theory Spec2Isabelle
  imports Complex_Main
begin

section \<open>jshint-mode.js: an HTTP front end to JSHint and JSLint\<close>

text \<open>
  The development follows \<^verbatim>\<open>src/jshint-mode.js\<close> in four parts: the listener bootstrap (the
  \<^verbatim>\<open>listening\<close> and \<^verbatim>\<open>error\<close> handlers of the server), the report formatter
  (\<^verbatim>\<open>outputErrors\<close>, \<^verbatim>\<open>lintify\<close>), the configuration cache (\<^verbatim>\<open>_getConfig\<close>) and the request
  handler. Each function of the source is a function of the same name here; the state it
  reads and writes is passed in and returned.

  JavaScript strings are modelled as \<^typ>\<open>string\<close>; a \<^typ>\<open>char\<close> stands for one code unit
  below 256. Numbers (ports, line numbers, the fields of a stat) are integers. A value that
  JavaScript leaves \<^verbatim>\<open>undefined\<close> is \<^const>\<open>None\<close>. What the host provides (the linters,
  \<^verbatim>\<open>JSON.parse\<close>, the file system, the form parser, the clock) is a parameter of the functions
  that use it; an exception is a value \<^term>\<open>Inl err\<close>.
\<close>

subsection \<open>Numbers in string concatenation\<close>

text \<open>
  \<^verbatim>\<open>'...' + n\<close> renders an integer-valued number in decimal, with a leading minus
  sign when negative.
\<close>

definition digit_char :: "nat \<Rightarrow> char" where
  "digit_char d = ''0123456789'' ! d"

fun string_of_nat :: "nat \<Rightarrow> string" where
  "string_of_nat n =
     (if n < 10 then [digit_char n] else string_of_nat (n div 10) @ [digit_char (n mod 10)])"

definition string_of_int :: "int \<Rightarrow> string" where
  "string_of_int i =
     (if i < 0 then CHR ''-'' # string_of_nat (nat (- i)) else string_of_nat (nat i))"

subsection \<open>Listener bootstrap\<close>

text \<open>
  The module variables \<^verbatim>\<open>port\<close>, \<^verbatim>\<open>lastPort\<close> and \<^verbatim>\<open>host\<close>, together with what the
  process has done so far: the calls of \<^verbatim>\<open>server.listen\<close> in order, the lines written
  by \<^verbatim>\<open>console.log\<close> and \<^verbatim>\<open>console.error\<close>, and the status passed to
  \<^verbatim>\<open>process.exit\<close> once it has been called.
\<close>

record server =
  port :: int
  lastPort :: int
  host :: string
  listen_calls :: "(int \<times> string) list"
  stdout :: "string list"
  stderr :: "string list"
  exit_status :: "int option"

text \<open>
  The error object handed to the \<^verbatim>\<open>error\<close> handler; the handler reads three fields.
  \<^verbatim>\<open>err.code\<close> is the name of the error, such as \<^verbatim>\<open>EADDRINUSE\<close>. \<^verbatim>\<open>err.errno\<close> is that same
  name in Node up to version 12 and the number of the error (\<^verbatim>\<open>-98\<close> for \<^verbatim>\<open>EADDRINUSE\<close> on
  Linux) from version 13 on.
\<close>

datatype js_errno = ErrnoName string | ErrnoNumber int

record bind_error =
  errno :: js_errno
  code :: string
  syscall :: string

text \<open>\<^verbatim>\<open>server.listen(port, host)\<close>: one more bind attempt on the current port.\<close>

definition listen :: "server \<Rightarrow> server" where
  "listen sv = sv\<lparr>listen_calls := listen_calls sv @ [(port sv, host sv)]\<rparr>"

text \<open>
  \<^verbatim>\<open>
  server.on('listening', function () {
    console.log('Started JSHint server at http://' + host + ':' + port + '.');
  });
  \<close>
\<close>

definition on_listening :: "server \<Rightarrow> server" where
  "on_listening sv =
     sv\<lparr>stdout := stdout sv @
       [''Started JSHint server at http://'' @ host sv @ '':'' @ string_of_int (port sv) @ ''.'']\<rparr>"

text \<open>
  \<^verbatim>\<open>
  server.on('error', function (err) {
    if (err.errno === "EADDRINUSE") {
      if (port >= lastPort) {
        console.error("Error occurred during '" + err.syscall + "':", err.code);
        process.exit(2);
      } else {
        port += 1;
        server.listen(port, host);
      }
    }
  });
  \<close>
  \<^verbatim>\<open>console.error\<close> joins its two arguments with a space. The comparison \<^verbatim>\<open>===\<close> holds of
  no number and the string \<^verbatim>\<open>EADDRINUSE\<close>.
\<close>

definition on_error :: "server \<Rightarrow> bind_error \<Rightarrow> server" where
  "on_error sv err =
     (if errno err = ErrnoName ''EADDRINUSE'' then
        (if port sv \<ge> lastPort sv then
           sv\<lparr>stderr := stderr sv @
                [''Error occurred during '' @ [CHR 0x27] @ syscall err @ [CHR 0x27] @ '':'' @ '' '' @ code err],
              exit_status := Some 2\<rparr>
         else listen (sv\<lparr>port := port sv + 1\<rparr>))
      else sv)"

text \<open>
  The last line of the file, \<^verbatim>\<open>server.listen(port, host)\<close>, run on the initial values
  of the three variables.
\<close>

definition start :: "int \<Rightarrow> int \<Rightarrow> string \<Rightarrow> server" where
  "start p lp h =
     listen \<lparr>port = p, lastPort = lp, host = h, listen_calls = [], stdout = [], stderr = [],
             exit_status = None\<rparr>"

text \<open>
  The events the server object emits, and the process reacting to a sequence of them.
  After \<^verbatim>\<open>process.exit\<close> no handler runs any more.
\<close>

datatype server_event = Listening | BindError bind_error

definition dispatch :: "server \<Rightarrow> server_event \<Rightarrow> server" where
  "dispatch sv ev =
     (if exit_status sv \<noteq> None then sv
      else (case ev of Listening \<Rightarrow> on_listening sv | BindError err \<Rightarrow> on_error sv err))"

fun run :: "server \<Rightarrow> server_event list \<Rightarrow> server" where
  "run sv [] = sv"
| "run sv (ev # evs) = run (dispatch sv ev) evs"

text \<open>
  What holds of the process after any sequence of events: a bind attempt has been made, the
  latest one was on the current \<^verbatim>\<open>port\<close> and \<^verbatim>\<open>host\<close>, and every attempt but the first was on
  a port no greater than \<^verbatim>\<open>lastPort\<close>.
\<close>

definition bootstrap_inv :: "server \<Rightarrow> bool" where
  "bootstrap_inv sv =
     (listen_calls sv \<noteq> [] \<and> last (listen_calls sv) = (port sv, host sv) \<and>
      list_all (\<lambda>c. fst c \<le> lastPort sv) (tl (listen_calls sv)))"

subsection \<open>Values that may be absent\<close>

text \<open>
  A form field, a file name or an \<^verbatim>\<open>evidence\<close> text is a string or \<^verbatim>\<open>undefined\<close>. Such a value
  is truthy when it is a non-empty string; \<^verbatim>\<open>v || d\<close> is \<^verbatim>\<open>v\<close> when truthy and \<^verbatim>\<open>d\<close>
  otherwise; concatenating \<^verbatim>\<open>undefined\<close> to a string, or using it as a property key, gives
  the text \<^verbatim>\<open>undefined\<close>.
\<close>

definition truthy :: "string option \<Rightarrow> bool" where
  "truthy v = (case v of None \<Rightarrow> False | Some s \<Rightarrow> s \<noteq> [])"

definition or_else :: "string option \<Rightarrow> string \<Rightarrow> string" where
  "or_else v d = (case v of None \<Rightarrow> d | Some s \<Rightarrow> if s = [] then d else s)"

definition js_string :: "string option \<Rightarrow> string" where
  "js_string v = (case v of None \<Rightarrow> ''undefined'' | Some s \<Rightarrow> s)"

abbreviation newline :: string where
  "newline \<equiv> [CHR 0x0A]"

subsection \<open>The regular expression that trims the evidence\<close>

text \<open>
  \<^verbatim>\<open>\s\<close> matches the white space characters of JavaScript; those among the code units
  below 256 are tab, line feed, vertical tab, form feed, carriage return, space and
  no-break space. \<^verbatim>\<open>\S\<close> matches every other character.
\<close>

definition is_space :: "char \<Rightarrow> bool" where
  "is_space c =
     (c \<in> set [CHR 0x09, CHR 0x0A, CHR 0x0B, CHR 0x0C, CHR 0x0D, CHR 0x20, CHR 0xA0])"

definition non_space :: "char \<Rightarrow> bool" where
  "non_space c = (\<not> is_space c)"

text \<open>
  A backtracking matcher is modelled by the list of inputs that remain after each way it can
  match, in the order in which the engine tries them. \<^verbatim>\<open>c*\<close> is greedy: the longest run
  first, then each shorter one, the empty one last. \<^verbatim>\<open>c+\<close> is one \<^verbatim>\<open>c\<close> and then \<^verbatim>\<open>c*\<close>.
\<close>

fun many :: "(char \<Rightarrow> bool) \<Rightarrow> string \<Rightarrow> string list" where
  "many p [] = [[]]"
| "many p (c # cs) = (if p c then many p cs @ [c # cs] else [c # cs])"

definition many1 :: "(char \<Rightarrow> bool) \<Rightarrow> string \<Rightarrow> string list" where
  "many1 p s = (case s of [] \<Rightarrow> [] | c # cs \<Rightarrow> if p c then many p cs else [])"

text \<open>The group \<^verbatim>\<open>(\s+\S+)\<close>, and its greedy repetition \<^verbatim>\<open>(\s+\S+)*\<close>.\<close>

definition space_word :: "string \<Rightarrow> string list" where
  "space_word s = concat (map (many1 non_space) (many1 is_space s))"

lemma many_length: "r \<in> set (many p s) \<Longrightarrow> length r \<le> length s"
  by (induction s) (auto split: if_splits)

lemma many1_length: "r \<in> set (many1 p s) \<Longrightarrow> length r < length s"
  by (auto simp: many1_def split: list.splits if_splits dest: many_length)

lemma space_word_length: "r \<in> set (space_word s) \<Longrightarrow> length r < length s"
  by (fastforce simp: space_word_def dest: many1_length)

function space_words :: "string \<Rightarrow> string list" where
  "space_words s = concat (map space_words (space_word s)) @ [s]"
  by pat_completeness auto
termination
  by (relation "measure length") (auto dest: space_word_length)

text \<open>
  \<^verbatim>\<open>/^\s*(\S*(\s+\S+)*)\s*$/\<close> on the input \<^verbatim>\<open>s\<close>: every match, as the pair of the input at
  the start of group 1 and the input at its end. The anchors make a match start at the
  beginning of \<^verbatim>\<open>s\<close> and leave nothing of it.
\<close>

definition trim_matches :: "string \<Rightarrow> (string \<times> string) list" where
  "trim_matches s =
     [(g, e). g \<leftarrow> many is_space s, a \<leftarrow> many non_space g, e \<leftarrow> space_words a,
              r \<leftarrow> many is_space e, r = []]"

text \<open>
  \<^verbatim>\<open>s.replace(/^\s*(\S*(\s+\S+)*)\s*$/, "$1")\<close>: the first match, which spans all of \<^verbatim>\<open>s\<close>, is
  replaced by the text of its group 1; without a match \<^verbatim>\<open>s\<close> is returned as it is.
\<close>

definition replace_trim :: "string \<Rightarrow> string" where
  "replace_trim s =
     (case trim_matches s of [] \<Rightarrow> s | (g, e) # _ \<Rightarrow> take (length g - length e) g)"

text \<open>
  What the specification calls the trimmed text: leading and trailing white space removed.
  \<^verbatim>\<open>trail\<close> is the white space a string ends with.
\<close>

definition trim :: "string \<Rightarrow> string" where
  "trim s = rev (dropWhile is_space (rev (dropWhile is_space s)))"

definition trail :: "string \<Rightarrow> string" where
  "trail s = rev (takeWhile is_space (rev s))"

subsection \<open>Report formatting\<close>

text \<open>
  A finding as the linters report it. The linters are not part of this file; their findings
  carry a line, a character position, a reason and, possibly, the source line as evidence.
  A slot of the \<^verbatim>\<open>errors\<close> array may be \<^verbatim>\<open>null\<close> (\<^const>\<open>None\<close>).
\<close>

record finding =
  line :: int
  character :: int
  reason :: string
  evidence :: "string option"

text \<open>\<^verbatim>\<open>function out(s) { output.push(s + '\n'); }\<close>\<close>

definition out :: "string list \<Rightarrow> string \<Rightarrow> string list" where
  "out output s = output @ [s @ newline]"

text \<open>
  \<^verbatim>\<open>
  for (i = 0; i < errors.length; i += 1) {
    e = errors[i];
    if (e) {
      out('Lint at line ' + e.line + ' character ' + e.character + ': ' + e.reason);
      if (showCode) {
        out((e.evidence || '').replace(/^\s*(\S*(\s+\S+)*)\s*$/, "$1"));
        out('');
      }
    }
  }
  return output.join('');
  \<close>
\<close>

function outputErrors_loop ::
  "finding option list \<Rightarrow> bool \<Rightarrow> nat \<Rightarrow> string list \<Rightarrow> string list" where
  "outputErrors_loop errors showCode i output =
     (if i < length errors then
        (case errors ! i of
           None \<Rightarrow> outputErrors_loop errors showCode (i + 1) output
         | Some e \<Rightarrow>
             (let output1 =
                    out output
                      (''Lint at line '' @ string_of_int (line e) @ '' character '' @
                       string_of_int (character e) @ '': '' @ reason e);
                  output2 =
                    (if showCode
                     then out (out output1 (replace_trim (or_else (evidence e) ''''))) ''''
                     else output1)
              in outputErrors_loop errors showCode (i + 1) output2))
      else output)"
  by pat_completeness auto
termination
  by (relation "measure (\<lambda>(errors, showCode, i, output). length errors - i)") auto

definition outputErrors :: "finding option list \<Rightarrow> bool \<Rightarrow> string" where
  "outputErrors errors showCode = concat (outputErrors_loop errors showCode 0 [])"

text \<open>
  The parsed configuration. \<^verbatim>\<open>JSON.parse\<close> belongs to the host; the functions below take
  it as a parameter.
\<close>

datatype json =
    JNull
  | JBool bool
  | JNumber rat
  | JString string
  | JArray "json list"
  | JObject "(string \<times> json) list"

text \<open>
  A linter takes the source text and the configuration and answers whether the source passed;
  when it did not, its \<^verbatim>\<open>errors\<close> property holds the findings. \<^verbatim>\<open>hinters\<close> is the table of
  the three linters the file registers. The type \<^typ>\<open>'c\<close> is that of the values handed over
  as configuration.
\<close>

type_synonym 'c linter = "string option \<Rightarrow> 'c \<Rightarrow> bool \<times> finding option list"

record 'c hinters =
  jshint :: "'c linter"
  jslint :: "'c linter"
  jshint_old :: "'c linter"

definition hinter :: "'c hinters \<Rightarrow> string \<Rightarrow> 'c linter option" where
  "hinter hs mode =
     (if mode = ''jshint'' then Some (jshint hs)
      else if mode = ''jslint'' then Some (jslint hs)
      else if mode = ''jshint_old'' then Some (jshint_old hs)
      else None)"

text \<open>
  \<^verbatim>\<open>
  function lintify(mode, sourcedata, filename, showCode, config) {
    var passed = hinters[mode](sourcedata, config);
    return passed ? "js: No problems found in " + filename + "\n"
      : outputErrors(hinters[mode].errors, showCode);
  }
  \<close>
  Calling a mode that is not in the table throws; the result is then \<^const>\<open>None\<close>.
\<close>

definition lintify ::
  "'c hinters \<Rightarrow> string \<Rightarrow> string option \<Rightarrow> string option \<Rightarrow> bool \<Rightarrow> 'c \<Rightarrow> string option" where
  "lintify hs mode sourcedata filename showCode config =
     (case hinter hs mode of
        None \<Rightarrow> None
      | Some lint \<Rightarrow>
          (case lint sourcedata config of
             (passed, errors) \<Rightarrow>
               Some (if passed then ''js: No problems found in '' @ js_string filename @ newline
                     else outputErrors errors showCode)))"

text \<open>
  The report as the specification words it: nothing for an empty slot; for a finding its
  line, and with \<^verbatim>\<open>showCode\<close> the trimmed evidence on the next line and then a blank line.
\<close>

definition finding_block :: "bool \<Rightarrow> finding option \<Rightarrow> string" where
  "finding_block showCode slot =
     (case slot of
        None \<Rightarrow> ''''
      | Some e \<Rightarrow>
          ''Lint at line '' @ string_of_int (line e) @ '' character '' @
          string_of_int (character e) @ '': '' @ reason e @ newline @
          (if showCode
           then trim (case evidence e of None \<Rightarrow> '''' | Some ev \<Rightarrow> ev) @ newline @ newline
           else ''''))"

subsection \<open>Comment stripping\<close>

text \<open>
  \<^verbatim>\<open>
  str = str.replace(/\/\*(?:(?!\*\/)[\s\S])*\*\//g, '');
  str = str.replace(/\/\/[^\n\r]*/g, '');
  \<close>
  After \<^verbatim>\<open>/*\<close> the first expression consumes characters up to the first \<^verbatim>\<open>*/\<close> and fails
  when there is none; \<^verbatim>\<open>find_close\<close> gives the input after that \<^verbatim>\<open>*/\<close>. The second expression
  consumes from \<^verbatim>\<open>//\<close> up to the next line feed or carriage return.
\<close>

fun find_close :: "string \<Rightarrow> string option" where
  "find_close (c # d # cs) =
     (if c = CHR ''*'' \<and> d = CHR ''/'' then Some cs else find_close (d # cs))"
| "find_close [c] = None"
| "find_close [] = None"

lemma find_close_length: "find_close s = Some r \<Longrightarrow> length r < length s"
  by (induction s arbitrary: r rule: find_close.induct) (auto split: if_splits)

function strip_block :: "string \<Rightarrow> string" where
  "strip_block (c # d # cs) =
     (if c = CHR ''/'' \<and> d = CHR ''*'' then
        (case find_close cs of
           Some r \<Rightarrow> strip_block r
         | None \<Rightarrow> c # strip_block (d # cs))
      else c # strip_block (d # cs))"
| "strip_block [c] = [c]"
| "strip_block [] = []"
  by pat_completeness auto
termination
  by (relation "measure length") (auto dest: find_close_length)

function strip_line :: "string \<Rightarrow> string" where
  "strip_line (c # d # cs) =
     (if c = CHR ''/'' \<and> d = CHR ''/''
      then strip_line (dropWhile (\<lambda>x. x \<noteq> CHR 0x0A \<and> x \<noteq> CHR 0x0D) cs)
      else c # strip_line (d # cs))"
| "strip_line [c] = [c]"
| "strip_line [] = []"
  by pat_completeness auto
termination
  by (relation "measure length") (auto simp: less_Suc_eq_le length_dropWhile_le le_SucI)

definition removeJsComments :: "string \<Rightarrow> string" where
  "removeJsComments str = strip_line (strip_block str)"

subsection \<open>The file system as the loader sees it\<close>

text \<open>
  The four fields of \<^verbatim>\<open>fs.Stats\<close> that the loader compares: \<^verbatim>\<open>dev\<close>, \<^verbatim>\<open>ino\<close>, \<^verbatim>\<open>size\<close>
  (here \<^verbatim>\<open>byte_size\<close>) and the value of \<^verbatim>\<open>mtime.getTime()\<close>, in milliseconds.
\<close>

record stats =
  dev :: int
  ino :: int
  byte_size :: int
  mtime :: int

text \<open>An exception, by the text it converts to.\<close>

datatype js_error = JsError string

text \<open>
  How a path behaves when the loader runs: whether \<^verbatim>\<open>openSync\<close> throws, and what
  \<^verbatim>\<open>fstatSync\<close> and \<^verbatim>\<open>readFileSync\<close> on the open descriptor return or throw.
\<close>

record fsfile =
  open_error :: "js_error option"
  fstat_result :: "js_error + stats"
  read_result :: "js_error + string"

type_synonym filesystem = "string \<Rightarrow> fsfile"

datatype fs_call = OpenSync string | FstatSync int | ReadFileSync int | CloseSync int

datatype console_line = Log string | LogStack js_error | LogError string

text \<open>
  A configuration object is identified by the number of its allocation and carries the value
  parsed from the file; two objects are the same object when the numbers agree. A cache
  entry is \<^verbatim>\<open>{cfg: ..., stat: ...}\<close>, where \<^verbatim>\<open>stat\<close> is \<^verbatim>\<open>null\<close> until a file has been read.
\<close>

type_synonym config = "nat \<times> json"

record entry =
  cfg :: config
  stat :: "stats option"

text \<open>
  \<^verbatim>\<open>_cache\<close> is a plain object, \<^verbatim>\<open>var _cache = {}\<close>, so \<^verbatim>\<open>_cache[filePath]\<close> finds more than the
  entries the loader has stored:
  \<^item> a property of \<^verbatim>\<open>_cache\<close> itself, which holds whatever \<^verbatim>\<open>_refreshConfig\<close> returned for that
    path;
  \<^item> a member that every object inherits from \<^verbatim>\<open>Object.prototype\<close>, for the paths
    \<^verbatim>\<open>constructor\<close>, \<^verbatim>\<open>toString\<close> and the others listed below; and for the path \<^verbatim>\<open>__proto__\<close>
    the prototype of \<^verbatim>\<open>_cache\<close> itself;
  \<^item> once an entry has been assigned to \<^verbatim>\<open>_cache["__proto__"]\<close>, which makes that entry the
    prototype of \<^verbatim>\<open>_cache\<close>: the properties \<^verbatim>\<open>cfg\<close> and \<^verbatim>\<open>stat\<close> of that entry, for the paths
    \<^verbatim>\<open>cfg\<close> and \<^verbatim>\<open>stat\<close>.

  So the value found is an entry, an inherited member of \<^verbatim>\<open>Object.prototype\<close> (a function, or
  \<^verbatim>\<open>Object.prototype\<close> itself), a stats object or a configuration object.
\<close>

datatype cached =
    Entry entry
  | Inherited
  | StatsObject stats
  | ConfigObject config

text \<open>
  The state of the process that the loader touches: the properties of \<^verbatim>\<open>_cache\<close> itself, by
  path; the entry that has become the prototype of \<^verbatim>\<open>_cache\<close>, if any; the number of objects
  allocated; the open file descriptors with their paths; and the record of file system calls
  and console lines.
\<close>

record state =
  cache :: "string \<Rightarrow> cached option"
  proto :: "entry option"
  allocated :: nat
  open_fds :: "(int \<times> string) list"
  fs_calls :: "fs_call list"
  console :: "console_line list"

text \<open>A descriptor that is not open: one more than the largest open one, and at least 3.\<close>

definition fresh_fd :: "(int \<times> string) list \<Rightarrow> int" where
  "fresh_fd fds = fold max (map fst fds) 2 + 1"

definition openSync :: "filesystem \<Rightarrow> string \<Rightarrow> state \<Rightarrow> (js_error + int) \<times> state" where
  "openSync fs path st =
     (let st1 = st\<lparr>fs_calls := fs_calls st @ [OpenSync path]\<rparr> in
      case open_error (fs path) of
        Some err \<Rightarrow> (Inl err, st1)
      | None \<Rightarrow>
          (let fd = fresh_fd (open_fds st)
           in (Inr fd, st1\<lparr>open_fds := open_fds st @ [(fd, path)]\<rparr>)))"

definition fstatSync :: "filesystem \<Rightarrow> int \<Rightarrow> state \<Rightarrow> (js_error + stats) \<times> state" where
  "fstatSync fs fd st =
     (let st1 = st\<lparr>fs_calls := fs_calls st @ [FstatSync fd]\<rparr> in
      case map_of (open_fds st) fd of
        None \<Rightarrow> (Inl (JsError ''Error: EBADF, bad file descriptor''), st1)
      | Some path \<Rightarrow> (fstat_result (fs path), st1))"

definition readFileSync :: "filesystem \<Rightarrow> int \<Rightarrow> state \<Rightarrow> (js_error + string) \<times> state" where
  "readFileSync fs fd st =
     (let st1 = st\<lparr>fs_calls := fs_calls st @ [ReadFileSync fd]\<rparr> in
      case map_of (open_fds st) fd of
        None \<Rightarrow> (Inl (JsError ''Error: EBADF, bad file descriptor''), st1)
      | Some path \<Rightarrow> (read_result (fs path), st1))"

definition closeSync :: "int \<Rightarrow> state \<Rightarrow> js_error option \<times> state" where
  "closeSync fd st =
     (let st1 = st\<lparr>fs_calls := fs_calls st @ [CloseSync fd]\<rparr> in
      case map_of (open_fds st) fd of
        None \<Rightarrow> (Some (JsError ''Error: EBADF, bad file descriptor''), st1)
      | Some path \<Rightarrow> (None, st1\<lparr>open_fds := filter (\<lambda>d. fst d \<noteq> fd) (open_fds st)\<rparr>))"

subsection \<open>Reading and writing properties\<close>

text \<open>
  A parsed value is truthy unless it is \<^verbatim>\<open>null\<close>, \<^verbatim>\<open>false\<close>, zero or the empty string. Reading
  a property of a parsed value finds a member of an object (\<^typ>\<open>json\<close> lists each member once)
  and is \<^verbatim>\<open>undefined\<close> otherwise; none of the names read here (\<^verbatim>\<open>stat\<close>, \<^verbatim>\<open>cfg\<close>, \<^verbatim>\<open>dev\<close>,
  \<^verbatim>\<open>ino\<close>, \<^verbatim>\<open>size\<close>, \<^verbatim>\<open>mtime\<close>) is inherited by an object, an array, a string, a number or a
  boolean.
\<close>

fun json_truthy :: "json \<Rightarrow> bool" where
  "json_truthy JNull = False"
| "json_truthy (JBool b) = b"
| "json_truthy (JNumber q) = (q \<noteq> 0)"
| "json_truthy (JString s) = (s \<noteq> [])"
| "json_truthy (JArray xs) = True"
| "json_truthy (JObject members) = True"

fun json_get :: "json \<Rightarrow> string \<Rightarrow> json option" where
  "json_get (JObject members) name = map_of members name"
| "json_get v name = None"

text \<open>
  The names of the members of \<^verbatim>\<open>Object.prototype\<close> other than \<^verbatim>\<open>__proto__\<close>. Each is a
  function, hence truthy, and has neither a \<^verbatim>\<open>stat\<close> nor a \<^verbatim>\<open>cfg\<close> property.
\<close>

definition object_prototype_names :: "string list" where
  "object_prototype_names =
     [''constructor'', ''hasOwnProperty'', ''isPrototypeOf'', ''propertyIsEnumerable'',
      ''toLocaleString'', ''toString'', ''valueOf'', ''__defineGetter__'', ''__defineSetter__'',
      ''__lookupGetter__'', ''__lookupSetter__'']"

text \<open>
  \<^verbatim>\<open>_cache[filePath]\<close>, read. \<^const>\<open>None\<close> stands for \<^verbatim>\<open>undefined\<close> and \<^verbatim>\<open>null\<close>. The path
  \<^verbatim>\<open>__proto__\<close> names no property of \<^verbatim>\<open>_cache\<close> itself; reading it gives the prototype.
\<close>

definition cache_get :: "state \<Rightarrow> string \<Rightarrow> cached option" where
  "cache_get st filePath =
     (if filePath = ''__proto__'' then
        (case proto st of None \<Rightarrow> Some Inherited | Some e \<Rightarrow> Some (Entry e))
      else
        (case cache st filePath of
           Some v \<Rightarrow> Some v
         | None \<Rightarrow>
             (case proto st of
                Some e \<Rightarrow>
                  if filePath = ''cfg'' then Some (ConfigObject (cfg e))
                  else if filePath = ''stat'' then map_option StatsObject (stat e)
                  else if filePath \<in> set object_prototype_names then Some Inherited
                  else None
              | None \<Rightarrow>
                  if filePath \<in> set object_prototype_names then Some Inherited else None)))"

text \<open>
  \<^verbatim>\<open>_cache[filePath] = v\<close>. Assigning an object to \<^verbatim>\<open>__proto__\<close> makes it the prototype of
  \<^verbatim>\<open>_cache\<close> and adds no property. The loader assigns to \<^verbatim>\<open>__proto__\<close> either a new entry or the
  value it read there, which is the prototype that \<^verbatim>\<open>_cache\<close> already has.
\<close>

definition cache_put :: "state \<Rightarrow> string \<Rightarrow> cached \<Rightarrow> state" where
  "cache_put st filePath v =
     (if filePath = ''__proto__'' then
        (case v of Entry e \<Rightarrow> st\<lparr>proto := Some e\<rparr> | _ \<Rightarrow> st)
      else st\<lparr>cache := (cache st)(filePath \<mapsto> v)\<rparr>)"

text \<open>
  Whether a value found in \<^verbatim>\<open>_cache\<close> is truthy, and its properties \<^verbatim>\<open>stat\<close> and \<^verbatim>\<open>cfg\<close>. The
  \<^verbatim>\<open>stat\<close> of an entry is a stats object or \<^verbatim>\<open>null\<close>; a configuration object has the \<^verbatim>\<open>stat\<close>
  and the \<^verbatim>\<open>cfg\<close> that its file gave it, if any; functions and stats objects have neither.
\<close>

definition cached_truthy :: "cached \<Rightarrow> bool" where
  "cached_truthy v = (case v of ConfigObject c \<Rightarrow> json_truthy (snd c) | _ \<Rightarrow> True)"

datatype stored_stat = NoStat | StoredStats stats | JsonValue json

definition stat_of :: "cached \<Rightarrow> stored_stat" where
  "stat_of v =
     (case v of
        Entry e \<Rightarrow> (case stat e of None \<Rightarrow> NoStat | Some s \<Rightarrow> StoredStats s)
      | ConfigObject c \<Rightarrow> (case json_get (snd c) ''stat'' of None \<Rightarrow> NoStat | Some j \<Rightarrow> JsonValue j)
      | _ \<Rightarrow> NoStat)"

text \<open>
  What \<^verbatim>\<open>_getConfig\<close> returns: \<^verbatim>\<open>undefined\<close>, a configuration object, or a member of one.
\<close>

datatype returned_config = Undefined | Config config | Member json

definition cfg_of :: "cached \<Rightarrow> returned_config" where
  "cfg_of v =
     (case v of
        Entry e \<Rightarrow> Config (cfg e)
      | ConfigObject c \<Rightarrow> (case json_get (snd c) ''cfg'' of None \<Rightarrow> Undefined | Some j \<Rightarrow> Member j)
      | _ \<Rightarrow> Undefined)"

text \<open>
  \<^verbatim>\<open>prev.stat = statbuf\<close>. The assignment is reached only when \<^verbatim>\<open>prev.stat\<close> is a stats
  object, that is, when \<^verbatim>\<open>prev\<close> is an entry.
\<close>

definition with_stat :: "cached \<Rightarrow> stats \<Rightarrow> cached" where
  "with_stat v statbuf = (case v of Entry e \<Rightarrow> Entry (e\<lparr>stat := Some statbuf\<rparr>) | _ \<Rightarrow> v)"

subsection \<open>The configuration cache\<close>

text \<open>
  \<^verbatim>\<open>
  function _statChanged(s, other) {
    if (!other) {
      return true;
    }
    return (s.dev !== other.dev ||
            s.ino !== other.ino ||
            s.size !== other.size ||
            s.mtime.getTime() !== other.mtime.getTime());
  }
  \<close>
  When \<^verbatim>\<open>other\<close> is a parsed value, \<^verbatim>\<open>other.dev\<close>, \<^verbatim>\<open>other.ino\<close> and \<^verbatim>\<open>other.size\<close> are parsed
  values or \<^verbatim>\<open>undefined\<close>, equal to a number only when they are that number; and
  \<^verbatim>\<open>other.mtime.getTime()\<close> throws a \<^verbatim>\<open>TypeError\<close>, since \<^verbatim>\<open>other.mtime\<close> is \<^verbatim>\<open>undefined\<close>, \<^verbatim>\<open>null\<close>
  or a parsed value, none of which has a function as a member (the wording of the error is
  that of Node up to version 14).
\<close>

definition type_error :: "json \<Rightarrow> js_error" where
  "type_error other =
     (case json_get other ''mtime'' of
        None \<Rightarrow> JsError (''TypeError: Cannot read property '' @ [CHR 0x27] @ ''getTime'' @
                         [CHR 0x27] @ '' of undefined'')
      | Some JNull \<Rightarrow> JsError (''TypeError: Cannot read property '' @ [CHR 0x27] @ ''getTime'' @
                               [CHR 0x27] @ '' of null'')
      | Some _ \<Rightarrow> JsError ''TypeError: other.mtime.getTime is not a function'')"

definition statChanged :: "stats \<Rightarrow> stored_stat \<Rightarrow> js_error + bool" where
  "statChanged s other =
     (case other of
        NoStat \<Rightarrow> Inr True
      | StoredStats other' \<Rightarrow>
          Inr (dev s \<noteq> dev other' \<or> ino s \<noteq> ino other' \<or> byte_size s \<noteq> byte_size other' \<or>
               mtime s \<noteq> mtime other')
      | JsonValue other' \<Rightarrow>
          if \<not> json_truthy other' then Inr True
          else if json_get other' ''dev'' \<noteq> Some (JNumber (of_int (dev s))) \<or>
                  json_get other' ''ino'' \<noteq> Some (JNumber (of_int (ino s))) \<or>
                  json_get other' ''size'' \<noteq> Some (JNumber (of_int (byte_size s)))
          then Inr True
          else Inl (type_error other'))"

text \<open>The literal \<^verbatim>\<open>{cfg: {}, stat: null}\<close>: a new, empty configuration object.\<close>

definition empty_entry :: "state \<Rightarrow> cached \<times> state" where
  "empty_entry st =
     (Entry \<lparr>cfg = (allocated st, JObject []), stat = None\<rparr>,
      st\<lparr>allocated := Suc (allocated st)\<rparr>)"

text \<open>\<^verbatim>\<open>var prev = _cache[filePath] || {cfg: {}, stat: null};\<close>\<close>

definition previous_entry :: "state \<Rightarrow> string \<Rightarrow> cached \<times> state" where
  "previous_entry st filePath =
     (case cache_get st filePath of
        Some v \<Rightarrow> if cached_truthy v then (v, st) else empty_entry st
      | None \<Rightarrow> empty_entry st)"

text \<open>
  The body of the \<^verbatim>\<open>try\<close> block of \<^verbatim>\<open>_refreshConfig\<close>. It returns a value or throws, and
  leaves \<^verbatim>\<open>fd\<close> at \<^verbatim>\<open>-1\<close> or at the descriptor it opened.
  \<^verbatim>\<open>
  fd = fs.openSync(filePath, C.O_RDONLY);
  var statbuf = fs.fstatSync(fd);
  if (_statChanged(statbuf, prev.stat)) {
    var rc = JSON.parse(_removeJsComments(fs.readFileSync(fd, "utf-8")));
    console.log("Loading jshintrc: " + filePath);
    return {cfg: rc, stat: statbuf};
  }
  prev.stat = statbuf;
  return prev;
  \<close>
\<close>

definition try_refresh ::
  "(string \<Rightarrow> js_error + json) \<Rightarrow> filesystem \<Rightarrow> string \<Rightarrow> cached \<Rightarrow> state \<Rightarrow>
   (js_error + cached) \<times> int \<times> state" where
  "try_refresh parse fs filePath prev st =
     (case openSync fs filePath st of
        (Inl err, st1) \<Rightarrow> (Inl err, - 1, st1)
      | (Inr fd, st1) \<Rightarrow>
          (case fstatSync fs fd st1 of
             (Inl err, st2) \<Rightarrow> (Inl err, fd, st2)
           | (Inr statbuf, st2) \<Rightarrow>
               (case statChanged statbuf (stat_of prev) of
                  Inl err \<Rightarrow> (Inl err, fd, st2)
                | Inr changed \<Rightarrow>
                    if changed then
                      (case readFileSync fs fd st2 of
                         (Inl err, st3) \<Rightarrow> (Inl err, fd, st3)
                       | (Inr content, st3) \<Rightarrow>
                           (case parse (removeJsComments content) of
                              Inl err \<Rightarrow> (Inl err, fd, st3)
                            | Inr rc \<Rightarrow>
                                (Inr (Entry \<lparr>cfg = (allocated st3, rc), stat = Some statbuf\<rparr>), fd,
                                 st3\<lparr>allocated := Suc (allocated st3),
                                     console := console st3 @
                                       [Log (''Loading jshintrc: '' @ filePath)]\<rparr>)))
                    else (Inr (with_stat prev statbuf), fd, st2))))"

text \<open>
  \<^verbatim>\<open>_refreshConfig\<close>: the guard on the path, the previous value or a new empty entry, the
  \<^verbatim>\<open>try\<close> block, the \<^verbatim>\<open>catch\<close> clause that logs and returns the previous value, and the
  \<^verbatim>\<open>finally\<close> clause:
  \<^verbatim>\<open>
  if (fd > -1) {
    try { fs.closeSync(fd); }
    catch (err) {}
  }
  \<close>
\<close>

definition refreshConfig ::
  "(string \<Rightarrow> js_error + json) \<Rightarrow> filesystem \<Rightarrow> string option \<Rightarrow> state \<Rightarrow> cached \<times> state" where
  "refreshConfig parse fs filePath st =
     (if \<not> truthy filePath then empty_entry st
      else
        (case previous_entry st (js_string filePath) of
           (prev, st0) \<Rightarrow>
             (case try_refresh parse fs (js_string filePath) prev st0 of
                (result, fd, st1) \<Rightarrow>
                  (case (case result of
                           Inr v \<Rightarrow> (v, st1)
                         | Inl (JsError msg) \<Rightarrow>
                             (prev,
                              st1\<lparr>console := console st1 @
                                    [LogStack (JsError msg),
                                     LogError (''Could not load jshintrc:'' @ msg)]\<rparr>)) of
                     (returned, st2) \<Rightarrow>
                       (returned, if fd > - 1 then snd (closeSync fd st2) else st2)))))"

text \<open>
  \<^verbatim>\<open>
  _cache[filePath] = _refreshConfig(filePath);
  return _cache[filePath].cfg;
  \<close>
  \<^verbatim>\<open>_cache[filePath]\<close> then is the value just assigned.
\<close>

definition getConfig ::
  "(string \<Rightarrow> js_error + json) \<Rightarrow> filesystem \<Rightarrow> string option \<Rightarrow> state \<Rightarrow>
   returned_config \<times> state" where
  "getConfig parse fs filePath st =
     (case refreshConfig parse fs filePath st of
        (v, st1) \<Rightarrow> (cfg_of v, cache_put st1 (js_string filePath) v))"

subsection \<open>The request handler\<close>

record request =
  url :: string
  http_method :: string

text \<open>The fields of the form as the parser hands them to the callback.\<close>

record fields =
  source :: "string option"
  filename :: "string option"
  mode :: "string option"
  showCode :: "string option"
  jshintrc :: "string option"

record response =
  status :: nat
  headers :: "(string \<times> string) list"
  body :: string

text \<open>\<^verbatim>\<open>toUpperCase\<close> on a request method, which is a token of ASCII characters.\<close>

definition toUpperCase :: "string \<Rightarrow> string" where
  "toUpperCase s =
     map (\<lambda>c. case map_of (zip ''abcdefghijklmnopqrstuvwxyz'' ''ABCDEFGHIJKLMNOPQRSTUVWXYZ'') c of
                None \<Rightarrow> c
              | Some u \<Rightarrow> u) s"

text \<open>
  \<^verbatim>\<open>
  var mode = (fields.mode && fields.mode == "jslint") ? "jslint" : "jshint";
  var showCode = (fields.showCode && fields.showCode === "1") ? true : false;
  \<close>
\<close>

definition request_mode :: "fields \<Rightarrow> string" where
  "request_mode f = (if truthy (mode f) \<and> mode f = Some ''jslint'' then ''jslint'' else ''jshint'')"

definition request_showCode :: "fields \<Rightarrow> bool" where
  "request_showCode f = (if truthy (showCode f) \<and> showCode f = Some ''1'' then True else False)"

text \<open>
  The callback of \<^verbatim>\<open>form.parse\<close>. The two readings of the clock are parameters. When
  \<^verbatim>\<open>lintify\<close> throws, no response is written.
\<close>

definition check_form ::
  "returned_config hinters \<Rightarrow> (string \<Rightarrow> js_error + json) \<Rightarrow> filesystem \<Rightarrow> int \<times> int \<Rightarrow>
   fields \<Rightarrow> state \<Rightarrow> response option \<times> state" where
  "check_form hs parse fs clock f st =
     (let st1 = st\<lparr>console := console st @
                  [Log (''Applying '' @ [CHR 0x27] @ request_mode f @ [CHR 0x27] @ '' to: '' @
                        or_else (filename f) ''anonymous'')]\<rparr>
      in case getConfig parse fs (jshintrc f) st1 of
           (config, st2) \<Rightarrow>
             (case lintify hs (request_mode f) (source f) (filename f) (request_showCode f)
                     config of
                None \<Rightarrow> (None, st2)
              | Some results \<Rightarrow>
                  (Some \<lparr>status = 200, headers = [(''Content-Type'', ''text/plain'')],
                         body = results\<rparr>,
                   st2\<lparr>console := console st2 @
                         [Log (''Took '' @ string_of_int (snd clock - fst clock) @ ''ms to lint '' @
                               or_else (filename f) ''anonymous'')]\<rparr>)))"

text \<open>
  The callback of \<^verbatim>\<open>http.createServer\<close>, given the request and what the form parser
  delivers for it.
\<close>

definition handle_request ::
  "returned_config hinters \<Rightarrow> (string \<Rightarrow> js_error + json) \<Rightarrow> filesystem \<Rightarrow> int \<times> int \<Rightarrow>
   request \<Rightarrow> fields \<Rightarrow> state \<Rightarrow> response option \<times> state" where
  "handle_request hs parse fs clock req f st =
     (if url req = ''/check'' \<and> toUpperCase (http_method req) = ''POST''
      then check_form hs parse fs clock f st
      else (Some \<lparr>status = 200, headers = [(''Content-Type'', ''text/plain'')],
                   body = ''hello from jshint-mode''\<rparr>, st))"

subsection \<open>Observing a call of the loader\<close>

text \<open>
  The file system calls made between two states, and whether a list of calls reads the
  content of a file.
\<close>

definition calls_during :: "state \<Rightarrow> state \<Rightarrow> fs_call list" where
  "calls_during st st' = drop (length (fs_calls st)) (fs_calls st')"

definition reads_file :: "fs_call list \<Rightarrow> bool" where
  "reads_file cs = list_ex (\<lambda>c. case c of ReadFileSync fd \<Rightarrow> True | _ \<Rightarrow> False) cs"

subsection \<open>Sample values for the examples\<close>

text \<open>
  A process that has not served a request yet; a file system with one file and nothing else;
  and a parser for the examples, which knows the empty object only. Of the texts used in the
  examples, \<^verbatim>\<open>{}\<close> is the empty object and \<^verbatim>\<open>{\<close> is not JSON.
\<close>

definition initial_state :: state where
  "initial_state =
     \<lparr>cache = Map.empty, proto = None, allocated = 0, open_fds = [], fs_calls = [], console = []\<rparr>"

definition no_file :: fsfile where
  "no_file =
     \<lparr>open_error = Some (JsError ''Error: ENOENT, no such file or directory''),
      fstat_result = Inl (JsError ''Error: EBADF, bad file descriptor''),
      read_result = Inl (JsError ''Error: EBADF, bad file descriptor'')\<rparr>"

definition one_file :: "string \<Rightarrow> stats \<Rightarrow> string \<Rightarrow> filesystem" where
  "one_file path s content =
     (\<lambda>p. if p = path
          then \<lparr>open_error = None, fstat_result = Inr s, read_result = Inr content\<rparr>
          else no_file)"

definition parse_empty_object :: "string \<Rightarrow> js_error + json" where
  "parse_empty_object s =
     (if filter (\<lambda>c. c \<notin> set [CHR 0x20, CHR 0x09, CHR 0x0A, CHR 0x0D]) s = ''{}''
      then Inr (JObject [])
      else Inl (JsError ''SyntaxError: Unexpected end of input''))"

definition sample_hinters :: "'c hinters" where
  "sample_hinters =
     \<lparr>jshint = (\<lambda>s c. (False, [Some \<lparr>line = 3, character = 5, reason = ''Missing semicolon'',
                                       evidence = Some '' foo(); ''\<rparr>])),
      jslint = (\<lambda>s c. (True, [])),
      jshint_old = (\<lambda>s c. (True, []))\<rparr>"

definition sample_stats :: stats where
  "sample_stats = \<lparr>dev = 2049, ino = 131, byte_size = 2, mtime = 1700000000000\<rparr>"


text \<open>
  For the path \<^verbatim>\<open>__proto__\<close>: the text \<^verbatim>\<open>{"stat":{"dev":2049,"ino":131,"size":2}}\<close>, a parser
  that knows this text besides the empty object, and a file system with a file \<^verbatim>\<open>__proto__\<close>
  holding the text and a file \<^verbatim>\<open>cfg\<close> holding \<^verbatim>\<open>{}\<close> whose \<^verbatim>\<open>dev\<close>, \<^verbatim>\<open>ino\<close> and \<^verbatim>\<open>size\<close> are those
  the text names.
\<close>

definition quoted :: "string \<Rightarrow> string" where
  "quoted s = [CHR 0x22] @ s @ [CHR 0x22]"

definition snapshot_text :: string where
  "snapshot_text =
     ''{'' @ quoted ''stat'' @ '':{'' @ quoted ''dev'' @ '':2049,'' @ quoted ''ino'' @ '':131,'' @
     quoted ''size'' @ '':2}}''"

definition parse_sample :: "string \<Rightarrow> js_error + json" where
  "parse_sample s =
     (if s = snapshot_text
      then Inr (JObject [(''stat'', JObject [(''dev'', JNumber 2049), (''ino'', JNumber 131),
                                            (''size'', JNumber 2)])])
      else parse_empty_object s)"

definition two_files :: filesystem where
  "two_files =
     (\<lambda>p. if p = ''__proto__''
          then \<lparr>open_error = None,
                fstat_result = Inr \<lparr>dev = 2049, ino = 130, byte_size = 41, mtime = 1700000000000\<rparr>,
                read_result = Inr snapshot_text\<rparr>
          else if p = ''cfg''
          then \<lparr>open_error = None, fstat_result = Inr sample_stats, read_result = Inr ''{}''\<rparr>
          else no_file)"
section \<open>Properties\<close>

declare string_of_nat.simps [simp del]

subsection \<open>Listener bootstrap\<close>

lemma bootstrap_inv_start: "bootstrap_inv (start p lp h)"
  by (simp add: bootstrap_inv_def start_def listen_def)

lemma bootstrap_inv_dispatch: "bootstrap_inv sv \<Longrightarrow> bootstrap_inv (dispatch sv ev)"
  by (cases ev) (auto simp: bootstrap_inv_def dispatch_def on_listening_def on_error_def listen_def)

lemma lastPort_dispatch: "lastPort (dispatch sv ev) = lastPort sv"
  by (cases ev) (auto simp: dispatch_def on_listening_def on_error_def listen_def)

lemma host_dispatch: "host (dispatch sv ev) = host sv"
  by (cases ev) (auto simp: dispatch_def on_listening_def on_error_def listen_def)

lemma bootstrap_inv_run: "bootstrap_inv sv \<Longrightarrow> bootstrap_inv (run sv evs)"
  by (induction evs arbitrary: sv) (auto simp: bootstrap_inv_dispatch)

lemma lastPort_run: "lastPort (run sv evs) = lastPort sv"
  by (induction evs arbitrary: sv) (auto simp: lastPort_dispatch)

lemma host_run: "host (run sv evs) = host sv"
  by (induction evs arbitrary: sv) (auto simp: host_dispatch)

text \<open>
  On a bind error whose \<^verbatim>\<open>errno\<close> is the string \<^verbatim>\<open>EADDRINUSE\<close>, as Node up to version 12 reports
  an address in use: while the current port is strictly below \<^verbatim>\<open>lastPort\<close> the handler adds
  exactly one to the port and calls \<^verbatim>\<open>listen\<close> on the new port, changing nothing else; once the
  port has reached or passed \<^verbatim>\<open>lastPort\<close> it writes the failure to stderr and exits with status
  2, without a further bind attempt.
\<close>

lemma on_error_errno_name:
  "errno err = ErrnoName ''EADDRINUSE'' \<Longrightarrow> port sv < lastPort sv \<Longrightarrow>
     on_error sv err =
       sv\<lparr>port := port sv + 1, listen_calls := listen_calls sv @ [(port sv + 1, host sv)]\<rparr>"
  "errno err = ErrnoName ''EADDRINUSE'' \<Longrightarrow> lastPort sv \<le> port sv \<Longrightarrow>
     on_error sv err =
       sv\<lparr>stderr := stderr sv @
            [''Error occurred during '' @ [CHR 0x27] @ syscall err @ [CHR 0x27] @ '': '' @ code err],
          exit_status := Some 2\<rparr>"
  by (simp_all add: on_error_def listen_def)

text \<open>
  Whatever events arrive after start-up, every bind attempt after the first is on a port at
  most \<^verbatim>\<open>lastPort\<close>.
\<close>

lemma bind_attempts_in_range:
  "list_all (\<lambda>c. fst c \<le> lp) (tl (listen_calls (run (start p lp h) evs)))"
proof -
  have "bootstrap_inv (run (start p lp h) evs)"
    by (simp add: bootstrap_inv_run bootstrap_inv_start)
  moreover have "lastPort (run (start p lp h) evs) = lp"
    by (simp add: lastPort_run start_def listen_def)
  ultimately show ?thesis
    by (simp add: bootstrap_inv_def)
qed

lemma bind_retry_example:
  "run (start 3003 3004 ''127.0.0.1'')
     [BindError \<lparr>errno = ErrnoName ''EADDRINUSE'', code = ''EADDRINUSE'', syscall = ''listen''\<rparr>,
      BindError \<lparr>errno = ErrnoName ''EADDRINUSE'', code = ''EADDRINUSE'', syscall = ''listen''\<rparr>] =
     \<lparr>port = 3004, lastPort = 3004, host = ''127.0.0.1'',
      listen_calls = [(3003, ''127.0.0.1''), (3004, ''127.0.0.1'')],
      stdout = [],
      stderr = [''Error occurred during '' @ [CHR 0x27] @ ''listen'' @ [CHR 0x27] @ '': EADDRINUSE''],
      exit_status = Some 2\<rparr>"
  by (simp add: start_def listen_def dispatch_def on_error_def)

text \<open>
  Claim C3 is about every bind error caused by an address in use. The handler recognises
  the cause by \<^verbatim>\<open>err.errno === "EADDRINUSE"\<close>. From Node 13 on \<^verbatim>\<open>err.errno\<close> is a number and only
  \<^verbatim>\<open>err.code\<close> is the string, so the comparison fails for the very error the handler is written
  for: with port 3003 taken and 3004 allowed (\<^verbatim>\<open>--port 3003 --lastport 3004\<close>) there is no
  second bind attempt, and with the last port taken nothing is logged and \<^verbatim>\<open>process.exit(2)\<close>
  is not called. The header of the file promises that the first port between \<^verbatim>\<open>PORT\<close> and
  \<^verbatim>\<open>LASTPORT\<close> is used for listening.
\<close>

theorem numeric_errno_is_not_retried:
  "on_error (start 3003 3004 ''127.0.0.1'')
       \<lparr>errno = ErrnoNumber (- 98), code = ''EADDRINUSE'', syscall = ''listen''\<rparr> =
     start 3003 3004 ''127.0.0.1'' \<and>
   listen_calls (run (start 3003 3004 ''127.0.0.1'')
       [BindError \<lparr>errno = ErrnoNumber (- 98), code = ''EADDRINUSE'', syscall = ''listen''\<rparr>]) =
     [(3003, ''127.0.0.1'')] \<and>
   run (start 3004 3004 ''127.0.0.1'')
       [BindError \<lparr>errno = ErrnoNumber (- 98), code = ''EADDRINUSE'', syscall = ''listen''\<rparr>] =
     \<lparr>port = 3004, lastPort = 3004, host = ''127.0.0.1'', listen_calls = [(3004, ''127.0.0.1'')],
      stdout = [], stderr = [], exit_status = None\<rparr>"
  by (simp add: start_def listen_def dispatch_def on_error_def)

text \<open>
  Claim C8. Whenever the \<^verbatim>\<open>listening\<close> event arrives (the process not having exited), one line
  is added to stdout, and it is exactly \<^verbatim>\<open>Started JSHint server at http://<host>:<port>.\<close> with
  the configured host and the port of the latest bind attempt, which is the one that succeeded.
\<close>

theorem started_line_names_bound_port:
  "exit_status (run (start p lp h) evs) = None \<longrightarrow>
     (\<exists>q. last (listen_calls (run (start p lp h) evs)) = (q, h) \<and>
          stdout (dispatch (run (start p lp h) evs) Listening) =
            stdout (run (start p lp h) evs) @
              [''Started JSHint server at http://'' @ h @ '':'' @ string_of_int q @ ''.''])"
proof -
  let ?sv = "run (start p lp h) evs"
  have inv: "bootstrap_inv ?sv"
    by (simp add: bootstrap_inv_run bootstrap_inv_start)
  have h: "host ?sv = h"
    by (simp add: host_run start_def listen_def)
  from inv h have "last (listen_calls ?sv) = (port ?sv, h)"
    by (simp add: bootstrap_inv_def)
  then show ?thesis
    using h by (auto simp: dispatch_def on_listening_def)
qed

text \<open>Port 3003 taken, 3004 free, range 3003 to 3005: the line names 3004.\<close>

theorem started_line_names_bound_port_witness:
  "exit_status (run (start 3003 3005 ''127.0.0.1'')
      [BindError \<lparr>errno = ErrnoName ''EADDRINUSE'', code = ''EADDRINUSE'', syscall = ''listen''\<rparr>]) = None \<and>
   last (listen_calls (run (start 3003 3005 ''127.0.0.1'')
      [BindError \<lparr>errno = ErrnoName ''EADDRINUSE'', code = ''EADDRINUSE'', syscall = ''listen''\<rparr>])) =
     (3004, ''127.0.0.1'') \<and>
   stdout (run (start 3003 3005 ''127.0.0.1'')
      [BindError \<lparr>errno = ErrnoName ''EADDRINUSE'', code = ''EADDRINUSE'', syscall = ''listen''\<rparr>, Listening]) =
     [''Started JSHint server at http://127.0.0.1:3004.'']"
  using started_line_names_bound_port
          [of 3003 3005 "''127.0.0.1''"
              "[BindError \<lparr>errno = ErrnoName ''EADDRINUSE'', code = ''EADDRINUSE'', syscall = ''listen''\<rparr>]"]
  by (simp add: start_def listen_def dispatch_def on_error_def on_listening_def
        string_of_int_def string_of_nat.simps digit_char_def)

subsection \<open>The evidence is trimmed\<close>

declare space_words.simps [simp del]

lemma many_hd: "\<exists>rest. many p s = dropWhile p s # rest"
  by (induction s) auto

lemma many_subset: "r \<in> set (many p s) \<Longrightarrow> set r \<subseteq> set s"
  by (induction s) (auto split: if_splits)

lemma many_no_empty: "\<not> list_all p e \<Longrightarrow> [] \<notin> set (many p e)"
  by (induction e) auto

lemma concat_map_hd:
  "f x = y # ys \<Longrightarrow> \<exists>rest. concat (map f (x # xs)) = y # rest"
  by simp

lemma whole_match:
  assumes "list_all is_space e"
  shows "\<exists>rest. concat (map (\<lambda>r. if r = [] then [(g, e)] else []) (many is_space e)) = (g, e) # rest"
proof -
  from assms have "dropWhile is_space e = []"
    by (simp add: list_all_iff)
  with many_hd [of is_space e] obtain rest where "many is_space e = [] # rest"
    by auto
  then show ?thesis by simp
qed

lemma no_whole_match:
  assumes "\<not> list_all is_space e"
  shows "concat (map (\<lambda>r. if r = [] then [(g, e)] else []) (many is_space e)) = []"
  using many_no_empty [OF assms] by (auto simp: concat_eq_Nil_conv)

lemma many1_non_space_Nil: "s = [] \<or> is_space (hd s) \<Longrightarrow> many1 non_space s = []"
  by (cases s) (auto simp: many1_def non_space_def)

lemma space_word_all_space:
  assumes "list_all is_space a"
  shows "space_word a = []"
proof -
  have "many1 non_space r = []" if "r \<in> set (many1 is_space a)" for r
  proof -
    from that obtain c cs where "a = c # cs" "r \<in> set (many is_space cs)"
      by (auto simp: many1_def split: list.splits if_splits)
    with many_subset [of r is_space cs] have "set r \<subseteq> set a"
      by auto
    with assms have "r = [] \<or> is_space (hd r)"
      by (cases r) (auto simp: list_all_iff)
    then show ?thesis by (rule many1_non_space_Nil)
  qed
  then show ?thesis
    by (auto simp: space_word_def)
qed

lemma many1_hd:
  "s \<noteq> [] \<Longrightarrow> p (hd s) \<Longrightarrow> \<exists>rest. many1 p s = dropWhile p s # rest"
  using many_hd [of p "tl s"] by (cases s) (auto simp: many1_def)

lemma space_word_hd:
  assumes "a \<noteq> []" "is_space (hd a)" "\<not> list_all is_space a"
  shows "\<exists>rest. space_word a = dropWhile non_space (dropWhile is_space a) # rest"
proof -
  let ?v = "dropWhile is_space a"
  from assms(3) have v: "?v \<noteq> []" "non_space (hd ?v)"
    using hd_dropWhile [of is_space a] by (auto simp: list_all_iff non_space_def)
  from many1_hd [of a is_space, OF assms(1,2)] obtain r1 where r1: "many1 is_space a = ?v # r1" by blast
  from many1_hd [of ?v non_space, OF v] obtain r2 where r2: "many1 non_space ?v = dropWhile non_space ?v # r2" by blast
  show ?thesis
    by (simp add: space_word_def r1 r2)
qed

lemma takeWhile_all: "list_all p xs \<Longrightarrow> takeWhile p xs = xs"
  by (induction xs) auto

lemma trail_all_space: "list_all is_space a \<Longrightarrow> trail a = a"
  by (simp add: trail_def takeWhile_all)

lemma trail_append: "x \<noteq> [] \<Longrightarrow> \<not> is_space (last x) \<Longrightarrow> trail (x @ w) = trail w"
  by (cases x rule: rev_cases) (auto simp: trail_def takeWhile_append takeWhile_all list_all_iff)

lemma trail_after_word:
  assumes "\<not> list_all is_space a"
  shows "trail (dropWhile non_space (dropWhile is_space a)) = trail a"
proof -
  let ?v = "dropWhile is_space a"
  let ?x = "takeWhile is_space a @ takeWhile non_space ?v"
  from assms have v: "?v \<noteq> []" "non_space (hd ?v)"
    using hd_dropWhile [of is_space a] by (auto simp: list_all_iff non_space_def)
  then have t: "takeWhile non_space ?v \<noteq> []"
    by (cases ?v) auto
  then have "last (takeWhile non_space ?v) \<in> set (takeWhile non_space ?v)"
    by simp
  then have "non_space (last (takeWhile non_space ?v))"
    by (rule set_takeWhileD [THEN conjunct2])
  with t have x: "?x \<noteq> []" "\<not> is_space (last ?x)"
    by (auto simp: non_space_def)
  have "a = ?x @ dropWhile non_space ?v"
    by simp
  then have "trail a = trail (?x @ dropWhile non_space ?v)"
    by simp
  also have "\<dots> = trail (dropWhile non_space ?v)"
    using x by (rule trail_append)
  finally show ?thesis by simp
qed

lemma space_words_first_match:
  "a = [] \<or> is_space (hd a) \<Longrightarrow>
   \<exists>rest. concat (map (\<lambda>e. concat (map (\<lambda>r. if r = [] then [(g, e)] else []) (many is_space e)))
              (space_words a)) = (g, trail a) # rest"
proof (induction a rule: space_words.induct)
  case (1 s)
  let ?F = "\<lambda>e. concat (map (\<lambda>r. if r = [] then [(g, e)] else []) (many is_space e))"
  show ?case
  proof (cases "list_all is_space s")
    case True
    then have "space_words s = [s]"
      by (simp add: space_words.simps [of s] space_word_all_space)
    with whole_match [OF True, of g] show ?thesis
      by (simp add: trail_all_space True)
  next
    case False
    let ?w = "dropWhile non_space (dropWhile is_space s)"
    from False have ne: "s \<noteq> []" by auto
    with 1(2) have sp: "is_space (hd s)" by simp
    from space_word_hd [OF ne sp False] obtain r3 where r3: "space_word s = ?w # r3" by blast
    have w: "?w = [] \<or> is_space (hd ?w)"
      using hd_dropWhile [of non_space "dropWhile is_space s"] by (auto simp: non_space_def)
    have "?w \<in> set (space_word s)" by (simp add: r3)
    from 1(1) [OF this w] obtain rest where
      "concat (map ?F (space_words ?w)) = (g, trail ?w) # rest" by blast
    then show ?thesis
      by (simp add: space_words.simps [of s] r3 trail_after_word [OF False])
  qed
qed

lemma trail_after_non_space: "trail (dropWhile non_space g) = trail g"
proof (cases "takeWhile non_space g = []")
  case True
  then have "dropWhile non_space g = g"
    by (metis append_Nil takeWhile_dropWhile_id)
  then show ?thesis by simp
next
  case False
  then have "last (takeWhile non_space g) \<in> set (takeWhile non_space g)"
    by simp
  then have "non_space (last (takeWhile non_space g))"
    by (rule set_takeWhileD [THEN conjunct2])
  then have "\<not> is_space (last (takeWhile non_space g))"
    by (simp add: non_space_def)
  from trail_append [OF False this, of "dropWhile non_space g"] show ?thesis
    by simp
qed

lemma trim_matches_first:
  "\<exists>rest. trim_matches s = (dropWhile is_space s, trail (dropWhile is_space s)) # rest"
proof -
  let ?g = "dropWhile is_space s"
  let ?a = "dropWhile non_space ?g"
  obtain r1 where r1: "many is_space s = ?g # r1"
    using many_hd by blast
  obtain r2 where r2: "many non_space ?g = ?a # r2"
    using many_hd by blast
  have a: "?a = [] \<or> is_space (hd ?a)"
    using hd_dropWhile [of non_space ?g] by (auto simp: non_space_def)
  from space_words_first_match [OF a, of ?g] obtain rest where
    "concat (map (\<lambda>e. concat (map (\<lambda>r. if r = [] then [(?g, e)] else []) (many is_space e)))
              (space_words ?a)) = (?g, trail ?a) # rest" by blast
  then show ?thesis
    by (simp add: trim_matches_def r1 r2 trail_after_non_space)
qed

lemma take_before_trail: "take (length g - length (trail g)) g = rev (dropWhile is_space (rev g))"
proof -
  have "g = rev (dropWhile is_space (rev g)) @ trail g"
    unfolding trail_def by (metis rev_append rev_rev_ident takeWhile_dropWhile_id)
  then show ?thesis
    by (metis add_diff_cancel_right' append_eq_conv_conj length_append)
qed

text \<open>
  The replacement in \<^verbatim>\<open>outputErrors\<close> removes exactly the leading and the trailing white space.
\<close>

lemma replace_trim_is_trim: "replace_trim s = trim s"
proof -
  obtain rest where "trim_matches s = (dropWhile is_space s, trail (dropWhile is_space s)) # rest"
    using trim_matches_first by blast
  then show ?thesis
    by (simp add: replace_trim_def trim_def take_before_trail)
qed

subsection \<open>Report formatting\<close>

declare outputErrors_loop.simps [simp del]

text \<open>What one slot of \<^verbatim>\<open>errors\<close> pushes onto \<^verbatim>\<open>output\<close>.\<close>

lemma outputErrors_loop_step:
  "i < length errors \<Longrightarrow>
   outputErrors_loop errors sc i output =
     outputErrors_loop errors sc (Suc i)
       (output @
        (case errors ! i of
           None \<Rightarrow> []
         | Some e \<Rightarrow>
             (''Lint at line '' @ string_of_int (line e) @ '' character '' @
              string_of_int (character e) @ '': '' @ reason e @ newline) #
             (if sc then [replace_trim (or_else (evidence e) '''') @ newline, newline]
              else [])))"
  by (subst outputErrors_loop.simps) (simp add: out_def Let_def split: option.split)

lemma outputErrors_loop_done:
  "length errors \<le> i \<Longrightarrow> outputErrors_loop errors sc i output = output"
  by (subst outputErrors_loop.simps) simp

lemma or_else_empty: "or_else v '''' = (case v of None \<Rightarrow> '''' | Some s \<Rightarrow> s)"
  by (simp add: or_else_def split: option.split)

lemma concat_outputErrors_loop:
  "i \<le> length errors \<Longrightarrow>
   concat (outputErrors_loop errors sc i acc) =
     concat acc @ concat (map (finding_block sc) (drop i errors))"
proof (induction "length errors - i" arbitrary: i acc)
  case 0
  then show ?case
    by (simp add: outputErrors_loop_done)
next
  case (Suc n)
  then have lt: "i < length errors" and n: "n = length errors - Suc i"
    by simp_all
  have d: "drop i errors = errors ! i # drop (Suc i) errors"
    using lt by (simp add: Cons_nth_drop_Suc)
  show ?case
    using Suc.hyps(1) [OF n] lt
    by (simp add: outputErrors_loop_step [OF lt] d finding_block_def replace_trim_is_trim
          or_else_empty split: option.split)
qed

lemma outputErrors_blocks:
  "outputErrors errors sc = concat (map (finding_block sc) errors)"
  by (simp add: outputErrors_def concat_outputErrors_loop)

text \<open>
  Claim C2. When the linter passes, \<^verbatim>\<open>lintify\<close> returns the single line
  \<^verbatim>\<open>js: No problems found in <filename>\<close> ended by a line feed. When it fails, \<^verbatim>\<open>lintify\<close>
  returns, for the slots of \<^verbatim>\<open>errors\<close> in their order, nothing for an empty slot and for a
  finding the line \<^verbatim>\<open>Lint at line <line> character <character>: <reason>\<close>, followed only when
  \<^verbatim>\<open>showCode\<close> holds by the evidence without its leading and trailing white space on a line
  of its own and then an empty line.
\<close>

theorem lintify_report:
  "hinter hs m = Some lint \<longrightarrow>
   lintify hs m sourcedata fname sc config =
     Some (if fst (lint sourcedata config)
           then ''js: No problems found in '' @ js_string fname @ newline
           else concat (map (\<lambda>slot.
                  case slot of
                    None \<Rightarrow> ''''
                  | Some e \<Rightarrow>
                      ''Lint at line '' @ string_of_int (line e) @ '' character '' @
                      string_of_int (character e) @ '': '' @ reason e @ newline @
                      (if sc
                       then trim (case evidence e of None \<Rightarrow> '''' | Some ev \<Rightarrow> ev) @
                            newline @ newline
                       else ''''))
                (snd (lint sourcedata config))))"
proof -
  have "finding_block sc =
        (\<lambda>slot. case slot of
                    None \<Rightarrow> ''''
                  | Some e \<Rightarrow>
                      ''Lint at line '' @ string_of_int (line e) @ '' character '' @
                      string_of_int (character e) @ '': '' @ reason e @ newline @
                      (if sc
                       then trim (case evidence e of None \<Rightarrow> '''' | Some ev \<Rightarrow> ev) @
                            newline @ newline
                       else ''''))"
    by (rule ext) (simp add: finding_block_def)
  then show ?thesis
    by (simp add: lintify_def outputErrors_blocks split: prod.split)
qed

text \<open>
  The finding of the specification's examples, with the evidence \<^verbatim>\<open>" foo(); "\<close> and followed
  by an empty slot: with \<^verbatim>\<open>showCode\<close> the report is the reason line, \<^verbatim>\<open>foo();\<close> and an empty
  line; without it the reason line alone; and a linter that passes gives the one-line report.
\<close>

theorem lintify_report_witness:
  "hinter \<lparr>jshint = (\<lambda>s c. (False, [Some \<lparr>line = 3, character = 5, reason = ''Missing semicolon'',
                                            evidence = Some '' foo(); ''\<rparr>, None])),
           jslint = (\<lambda>s c. (True, [])), jshint_old = (\<lambda>s c. (True, []))\<rparr> ''jshint'' =
     Some (\<lambda>s c. (False, [Some \<lparr>line = 3, character = 5, reason = ''Missing semicolon'',
                                evidence = Some '' foo(); ''\<rparr>, None])) \<and>
   lintify \<lparr>jshint = (\<lambda>s c. (False, [Some \<lparr>line = 3, character = 5, reason = ''Missing semicolon'',
                                             evidence = Some '' foo(); ''\<rparr>, None])),
            jslint = (\<lambda>s c. (True, [])), jshint_old = (\<lambda>s c. (True, []))\<rparr>
       ''jshint'' (Some ''foo(); '') (Some ''my.js'') True (JObject []) =
     Some (''Lint at line 3 character 5: Missing semicolon'' @ newline @ ''foo();'' @ newline @ newline) \<and>
   lintify \<lparr>jshint = (\<lambda>s c. (False, [Some \<lparr>line = 3, character = 5, reason = ''Missing semicolon'',
                                             evidence = Some '' foo(); ''\<rparr>, None])),
            jslint = (\<lambda>s c. (True, [])), jshint_old = (\<lambda>s c. (True, []))\<rparr>
       ''jshint'' (Some ''foo(); '') (Some ''my.js'') False (JObject []) =
     Some (''Lint at line 3 character 5: Missing semicolon'' @ newline) \<and>
   lintify \<lparr>jshint = (\<lambda>s c. (False, [Some \<lparr>line = 3, character = 5, reason = ''Missing semicolon'',
                                             evidence = Some '' foo(); ''\<rparr>, None])),
            jslint = (\<lambda>s c. (True, [])), jshint_old = (\<lambda>s c. (True, []))\<rparr>
       ''jslint'' (Some ''foo(); '') (Some ''my.js'') True (JObject []) =
     Some (''js: No problems found in my.js'' @ newline)"
  using lintify_report
          [of "\<lparr>jshint = (\<lambda>s c. (False, [Some \<lparr>line = 3, character = 5, reason = ''Missing semicolon'',
                                                   evidence = Some '' foo(); ''\<rparr>, None])),
                  jslint = (\<lambda>s c. (True, [])), jshint_old = (\<lambda>s c. (True, []))\<rparr>"
              "''jshint''"
              "\<lambda>s c. (False, [Some \<lparr>line = 3, character = 5, reason = ''Missing semicolon'',
                                     evidence = Some '' foo(); ''\<rparr>, None])"
              "Some ''foo(); ''" "Some ''my.js''" True "JObject []"]
        lintify_report
          [of "\<lparr>jshint = (\<lambda>s c. (False, [Some \<lparr>line = 3, character = 5, reason = ''Missing semicolon'',
                                                   evidence = Some '' foo(); ''\<rparr>, None])),
                  jslint = (\<lambda>s c. (True, [])), jshint_old = (\<lambda>s c. (True, []))\<rparr>"
              "''jshint''"
              "\<lambda>s c. (False, [Some \<lparr>line = 3, character = 5, reason = ''Missing semicolon'',
                                     evidence = Some '' foo(); ''\<rparr>, None])"
              "Some ''foo(); ''" "Some ''my.js''" False "JObject []"]
        lintify_report
          [of "\<lparr>jshint = (\<lambda>s c. (False, [Some \<lparr>line = 3, character = 5, reason = ''Missing semicolon'',
                                                   evidence = Some '' foo(); ''\<rparr>, None])),
                  jslint = (\<lambda>s c. (True, [])), jshint_old = (\<lambda>s c. (True, []))\<rparr>"
              "''jslint''" "\<lambda>s c. (True, [])"
              "Some ''foo(); ''" "Some ''my.js''" True "JObject []"]
  by (simp add: hinter_def js_string_def trim_def is_space_def string_of_int_def
        string_of_nat.simps digit_char_def)

text \<open>
  Claim C10. With \<^verbatim>\<open>showCode\<close> true, a finding whose evidence is absent or empty still
  contributes three lines to the report of \<^verbatim>\<open>lintify\<close>: its reason line, an empty evidence
  line and the empty separator line, between what the slots before it and after it
  contribute.
\<close>

theorem empty_evidence_block:
  "hinter hs m = Some lint \<and> lint sourcedata config = (False, before @ Some e # after) \<and>
   (evidence e = None \<or> evidence e = Some '''') \<longrightarrow>
   lintify hs m sourcedata fname True config =
     Some (outputErrors before True @
           (''Lint at line '' @ string_of_int (line e) @ '' character '' @
            string_of_int (character e) @ '': '' @ reason e @ newline @ newline @ newline) @
           outputErrors after True)"
  by (auto simp: lintify_def outputErrors_blocks finding_block_def trim_def)

text \<open>A lone finding without evidence: the reason line and two empty lines.\<close>

theorem empty_evidence_block_witness:
  "hinter \<lparr>jshint = (\<lambda>s c. (False, [Some \<lparr>line = 3, character = 5, reason = ''Missing semicolon'',
                                            evidence = None\<rparr>])),
           jslint = (\<lambda>s c. (True, [])), jshint_old = (\<lambda>s c. (True, []))\<rparr> ''jshint'' =
     Some (\<lambda>s c. (False, [Some \<lparr>line = 3, character = 5, reason = ''Missing semicolon'',
                                evidence = None\<rparr>])) \<and>
   lintify \<lparr>jshint = (\<lambda>s c. (False, [Some \<lparr>line = 3, character = 5, reason = ''Missing semicolon'',
                                             evidence = None\<rparr>])),
            jslint = (\<lambda>s c. (True, [])), jshint_old = (\<lambda>s c. (True, []))\<rparr>
       ''jshint'' (Some ''foo()'') (Some ''my.js'') True (JObject []) =
     Some (''Lint at line 3 character 5: Missing semicolon'' @ newline @ newline @ newline)"
  using empty_evidence_block
          [of "\<lparr>jshint = (\<lambda>s c. (False, [Some \<lparr>line = 3, character = 5, reason = ''Missing semicolon'',
                                                   evidence = None\<rparr>])),
                  jslint = (\<lambda>s c. (True, [])), jshint_old = (\<lambda>s c. (True, []))\<rparr>"
              "''jshint''"
              "\<lambda>s c. (False, [Some \<lparr>line = 3, character = 5, reason = ''Missing semicolon'',
                                     evidence = None\<rparr>])"
              "Some ''foo()''" "JObject []" "[]"
              "\<lparr>line = 3, character = 5, reason = ''Missing semicolon'', evidence = None\<rparr>" "[]"
              "Some ''my.js''"]
  by (simp add: hinter_def outputErrors_blocks string_of_int_def string_of_nat.simps digit_char_def)

subsection \<open>File descriptors\<close>

lemma fold_max_ge_start: "(a::int) \<le> fold max xs a"
proof (induction xs arbitrary: a)
  case Nil
  show ?case by simp
next
  case (Cons x xs)
  have "a \<le> max x a" by simp
  also have "\<dots> \<le> fold max xs (max x a)" by (rule Cons.IH)
  finally show ?case by simp
qed

lemma fold_max_ge_member: "(x::int) \<in> set xs \<Longrightarrow> x \<le> fold max xs a"
proof (induction xs arbitrary: a)
  case Nil
  then show ?case by simp
next
  case (Cons y ys)
  show ?case
  proof (cases "x = y")
    case True
    have "x \<le> max y a" using True by simp
    also have "\<dots> \<le> fold max ys (max y a)" by (rule fold_max_ge_start)
    finally show ?thesis by simp
  next
    case False
    with Cons.prems have "x \<in> set ys" by simp
    then show ?thesis by (simp add: Cons.IH)
  qed
qed

lemma fresh_fd_positive: "fresh_fd fds > - 1"
  using fold_max_ge_start [of 2 "map fst fds"] by (simp add: fresh_fd_def)

lemma fresh_fd_unused: "(fresh_fd fds, p) \<notin> set fds"
proof
  assume "(fresh_fd fds, p) \<in> set fds"
  then have "fresh_fd fds \<in> set (map fst fds)" by force
  then have "fresh_fd fds \<le> fold max (map fst fds) 2" by (rule fold_max_ge_member)
  then show False by (simp add: fresh_fd_def)
qed

lemma map_of_fresh_fd: "map_of (fds @ [(fresh_fd fds, p)]) (fresh_fd fds) = Some p"
proof -
  have "map_of fds (fresh_fd fds) = None"
    using fresh_fd_unused [of fds] by (auto simp: map_of_eq_None_iff)
  then show ?thesis by (simp add: map_add_def)
qed

lemma map_add_fresh_fd: "([fresh_fd fds \<mapsto> p] ++ map_of fds) (fresh_fd fds) = Some p"
  using map_of_fresh_fd [of fds p] by simp

lemma filter_fresh_fd:
  "filter (\<lambda>d. fst d \<noteq> fresh_fd fds) (fds @ [(fresh_fd fds, p)]) = fds"
proof -
  have "\<forall>d \<in> set fds. fst d \<noteq> fresh_fd fds"
    using fresh_fd_unused [of fds] by (metis prod.collapse)
  then show ?thesis by simp
qed

lemma filter_old_fds: "filter (\<lambda>d. fst d \<noteq> fresh_fd fds) fds = fds"
proof -
  have "\<forall>d \<in> set fds. fst d \<noteq> fresh_fd fds"
    using fresh_fd_unused [of fds] by (metis prod.collapse)
  then show ?thesis by simp
qed

subsection \<open>The outcomes of the try block\<close>

lemma try_refresh_open_error:
  "open_error (fs p) = Some err \<Longrightarrow>
   try_refresh parse fs p prev st = (Inl err, - 1, st\<lparr>fs_calls := fs_calls st @ [OpenSync p]\<rparr>)"
  by (simp add: try_refresh_def openSync_def)

lemma try_refresh_fstat_error:
  "open_error (fs p) = None \<Longrightarrow> fstat_result (fs p) = Inl err \<Longrightarrow>
   try_refresh parse fs p prev st =
     (Inl err, fresh_fd (open_fds st),
      st\<lparr>fs_calls := fs_calls st @ [OpenSync p, FstatSync (fresh_fd (open_fds st))],
         open_fds := open_fds st @ [(fresh_fd (open_fds st), p)]\<rparr>)"
  by (simp add: try_refresh_def openSync_def fstatSync_def Let_def map_add_fresh_fd)

lemma try_refresh_unchanged:
  "open_error (fs p) = None \<Longrightarrow> fstat_result (fs p) = Inr statbuf \<Longrightarrow>
   statChanged statbuf (stat_of prev) = Inr False \<Longrightarrow>
   try_refresh parse fs p prev st =
     (Inr (with_stat prev statbuf), fresh_fd (open_fds st),
      st\<lparr>fs_calls := fs_calls st @ [OpenSync p, FstatSync (fresh_fd (open_fds st))],
         open_fds := open_fds st @ [(fresh_fd (open_fds st), p)]\<rparr>)"
  by (simp add: try_refresh_def openSync_def fstatSync_def Let_def map_add_fresh_fd)

lemma try_refresh_read_error:
  "open_error (fs p) = None \<Longrightarrow> fstat_result (fs p) = Inr statbuf \<Longrightarrow>
   statChanged statbuf (stat_of prev) = Inr True \<Longrightarrow> read_result (fs p) = Inl err \<Longrightarrow>
   try_refresh parse fs p prev st =
     (Inl err, fresh_fd (open_fds st),
      st\<lparr>fs_calls := fs_calls st @
           [OpenSync p, FstatSync (fresh_fd (open_fds st)), ReadFileSync (fresh_fd (open_fds st))],
         open_fds := open_fds st @ [(fresh_fd (open_fds st), p)]\<rparr>)"
  by (simp add: try_refresh_def openSync_def fstatSync_def readFileSync_def Let_def map_add_fresh_fd)

lemma try_refresh_parse_error:
  "open_error (fs p) = None \<Longrightarrow> fstat_result (fs p) = Inr statbuf \<Longrightarrow>
   statChanged statbuf (stat_of prev) = Inr True \<Longrightarrow> read_result (fs p) = Inr content \<Longrightarrow>
   parse (removeJsComments content) = Inl err \<Longrightarrow>
   try_refresh parse fs p prev st =
     (Inl err, fresh_fd (open_fds st),
      st\<lparr>fs_calls := fs_calls st @
           [OpenSync p, FstatSync (fresh_fd (open_fds st)), ReadFileSync (fresh_fd (open_fds st))],
         open_fds := open_fds st @ [(fresh_fd (open_fds st), p)]\<rparr>)"
  by (simp add: try_refresh_def openSync_def fstatSync_def readFileSync_def Let_def map_add_fresh_fd)

lemma try_refresh_loaded:
  "open_error (fs p) = None \<Longrightarrow> fstat_result (fs p) = Inr statbuf \<Longrightarrow>
   statChanged statbuf (stat_of prev) = Inr True \<Longrightarrow> read_result (fs p) = Inr content \<Longrightarrow>
   parse (removeJsComments content) = Inr rc \<Longrightarrow>
   try_refresh parse fs p prev st =
     (Inr (Entry \<lparr>cfg = (allocated st, rc), stat = Some statbuf\<rparr>), fresh_fd (open_fds st),
      st\<lparr>fs_calls := fs_calls st @
           [OpenSync p, FstatSync (fresh_fd (open_fds st)), ReadFileSync (fresh_fd (open_fds st))],
         open_fds := open_fds st @ [(fresh_fd (open_fds st), p)],
         allocated := Suc (allocated st),
         console := console st @ [Log (''Loading jshintrc: '' @ p)]\<rparr>)"
  by (simp add: try_refresh_def openSync_def fstatSync_def readFileSync_def Let_def map_add_fresh_fd)

lemma try_refresh_compare_error:
  "open_error (fs p) = None \<Longrightarrow> fstat_result (fs p) = Inr statbuf \<Longrightarrow>
   statChanged statbuf (stat_of prev) = Inl err \<Longrightarrow>
   try_refresh parse fs p prev st =
     (Inl err, fresh_fd (open_fds st),
      st\<lparr>fs_calls := fs_calls st @ [OpenSync p, FstatSync (fresh_fd (open_fds st))],
         open_fds := open_fds st @ [(fresh_fd (open_fds st), p)]\<rparr>)"
  by (simp add: try_refresh_def openSync_def fstatSync_def Let_def map_add_fresh_fd)

subsection \<open>The outcomes of the loader\<close>

lemma previous_entry_frame:
  "fs_calls (snd (previous_entry st p)) = fs_calls st"
  "open_fds (snd (previous_entry st p)) = open_fds st"
  "console (snd (previous_entry st p)) = console st"
  "cache (snd (previous_entry st p)) = cache st"
  "proto (snd (previous_entry st p)) = proto st"
  by (simp_all add: previous_entry_def empty_entry_def split: option.split)

lemma previous_entry_found:
  "cache_get st p = Some v \<Longrightarrow> cached_truthy v \<Longrightarrow> previous_entry st p = (v, st)"
  by (simp add: previous_entry_def)

lemma previous_entry_new:
  "cache_get st p = None \<Longrightarrow>
   previous_entry st p =
     (Entry \<lparr>cfg = (allocated st, JObject []), stat = None\<rparr>,
      st\<lparr>allocated := Suc (allocated st)\<rparr>)"
  by (simp add: previous_entry_def empty_entry_def)

lemma previous_entry_truthy: "cached_truthy (fst (previous_entry st p))"
  by (simp add: previous_entry_def empty_entry_def cached_truthy_def split: option.split)

lemma refreshConfig_no_path:
  "\<not> truthy filePath \<Longrightarrow>
   refreshConfig parse fs filePath st =
     (Entry \<lparr>cfg = (allocated st, JObject []), stat = None\<rparr>,
      st\<lparr>allocated := Suc (allocated st)\<rparr>)"
  by (simp add: refreshConfig_def empty_entry_def)

lemma closeSync_fresh_fd:
  "open_fds st1 = fds @ [(fresh_fd fds, p)] \<Longrightarrow>
   snd (closeSync (fresh_fd fds) st1) =
     st1\<lparr>fs_calls := fs_calls st1 @ [CloseSync (fresh_fd fds)], open_fds := fds\<rparr>"
  by (simp add: closeSync_def Let_def map_add_fresh_fd filter_old_fds)

lemma refreshConfig_open_error:
  assumes "p \<noteq> []" and "open_error (fs p) = Some (JsError msg)"
  shows "refreshConfig parse fs (Some p) st =
     (fst (previous_entry st p),
      (snd (previous_entry st p))
        \<lparr>fs_calls := fs_calls st @ [OpenSync p],
         console := console st @
           [LogStack (JsError msg), LogError (''Could not load jshintrc:'' @ msg)]\<rparr>)"
  using assms
  by (simp add: refreshConfig_def truthy_def js_string_def try_refresh_open_error
        previous_entry_frame case_prod_beta)

lemma refreshConfig_fstat_error:
  assumes "p \<noteq> []" and "open_error (fs p) = None" and "fstat_result (fs p) = Inl (JsError msg)"
  shows "refreshConfig parse fs (Some p) st =
     (fst (previous_entry st p),
      (snd (previous_entry st p))
        \<lparr>fs_calls := fs_calls st @
           [OpenSync p, FstatSync (fresh_fd (open_fds st)), CloseSync (fresh_fd (open_fds st))],
         open_fds := open_fds st,
         console := console st @
           [LogStack (JsError msg), LogError (''Could not load jshintrc:'' @ msg)]\<rparr>)"
  using assms
  by (simp add: refreshConfig_def truthy_def js_string_def try_refresh_fstat_error
        previous_entry_frame fresh_fd_positive closeSync_fresh_fd case_prod_beta)

lemma refreshConfig_unchanged:
  assumes "p \<noteq> []" and "open_error (fs p) = None" and "fstat_result (fs p) = Inr statbuf"
    and "statChanged statbuf (stat_of (fst (previous_entry st p))) = Inr False"
  shows "refreshConfig parse fs (Some p) st =
     (with_stat (fst (previous_entry st p)) statbuf,
      (snd (previous_entry st p))
        \<lparr>fs_calls := fs_calls st @
           [OpenSync p, FstatSync (fresh_fd (open_fds st)), CloseSync (fresh_fd (open_fds st))],
         open_fds := open_fds st\<rparr>)"
  using assms
  by (simp add: refreshConfig_def truthy_def js_string_def try_refresh_unchanged
        previous_entry_frame fresh_fd_positive closeSync_fresh_fd case_prod_beta)

lemma refreshConfig_read_error:
  assumes "p \<noteq> []" and "open_error (fs p) = None" and "fstat_result (fs p) = Inr statbuf"
    and "statChanged statbuf (stat_of (fst (previous_entry st p))) = Inr True"
    and "read_result (fs p) = Inl (JsError msg)"
  shows "refreshConfig parse fs (Some p) st =
     (fst (previous_entry st p),
      (snd (previous_entry st p))
        \<lparr>fs_calls := fs_calls st @
           [OpenSync p, FstatSync (fresh_fd (open_fds st)), ReadFileSync (fresh_fd (open_fds st)),
            CloseSync (fresh_fd (open_fds st))],
         open_fds := open_fds st,
         console := console st @
           [LogStack (JsError msg), LogError (''Could not load jshintrc:'' @ msg)]\<rparr>)"
  using assms
  by (simp add: refreshConfig_def truthy_def js_string_def try_refresh_read_error
        previous_entry_frame fresh_fd_positive closeSync_fresh_fd case_prod_beta)

lemma refreshConfig_parse_error:
  assumes "p \<noteq> []" and "open_error (fs p) = None" and "fstat_result (fs p) = Inr statbuf"
    and "statChanged statbuf (stat_of (fst (previous_entry st p))) = Inr True"
    and "read_result (fs p) = Inr content"
    and "parse (removeJsComments content) = Inl (JsError msg)"
  shows "refreshConfig parse fs (Some p) st =
     (fst (previous_entry st p),
      (snd (previous_entry st p))
        \<lparr>fs_calls := fs_calls st @
           [OpenSync p, FstatSync (fresh_fd (open_fds st)), ReadFileSync (fresh_fd (open_fds st)),
            CloseSync (fresh_fd (open_fds st))],
         open_fds := open_fds st,
         console := console st @
           [LogStack (JsError msg), LogError (''Could not load jshintrc:'' @ msg)]\<rparr>)"
  using assms
  by (simp add: refreshConfig_def truthy_def js_string_def try_refresh_parse_error
        previous_entry_frame fresh_fd_positive closeSync_fresh_fd case_prod_beta)

lemma refreshConfig_loaded:
  assumes "p \<noteq> []" and "open_error (fs p) = None" and "fstat_result (fs p) = Inr statbuf"
    and "statChanged statbuf (stat_of (fst (previous_entry st p))) = Inr True"
    and "read_result (fs p) = Inr content"
    and "parse (removeJsComments content) = Inr rc"
  shows "refreshConfig parse fs (Some p) st =
     (Entry \<lparr>cfg = (allocated (snd (previous_entry st p)), rc), stat = Some statbuf\<rparr>,
      (snd (previous_entry st p))
        \<lparr>fs_calls := fs_calls st @
           [OpenSync p, FstatSync (fresh_fd (open_fds st)), ReadFileSync (fresh_fd (open_fds st)),
            CloseSync (fresh_fd (open_fds st))],
         open_fds := open_fds st,
         allocated := Suc (allocated (snd (previous_entry st p))),
         console := console st @ [Log (''Loading jshintrc: '' @ p)]\<rparr>)"
  using assms
  by (simp add: refreshConfig_def truthy_def js_string_def try_refresh_loaded
        previous_entry_frame fresh_fd_positive closeSync_fresh_fd case_prod_beta)

lemma refreshConfig_compare_error:
  assumes "p \<noteq> []" and "open_error (fs p) = None" and "fstat_result (fs p) = Inr statbuf"
    and "statChanged statbuf (stat_of (fst (previous_entry st p))) = Inl (JsError msg)"
  shows "refreshConfig parse fs (Some p) st =
     (fst (previous_entry st p),
      (snd (previous_entry st p))
        \<lparr>fs_calls := fs_calls st @
           [OpenSync p, FstatSync (fresh_fd (open_fds st)), CloseSync (fresh_fd (open_fds st))],
         open_fds := open_fds st,
         console := console st @
           [LogStack (JsError msg), LogError (''Could not load jshintrc:'' @ msg)]\<rparr>)"
  using assms
  by (simp add: refreshConfig_def truthy_def js_string_def try_refresh_compare_error
        previous_entry_frame fresh_fd_positive closeSync_fresh_fd case_prod_beta)

lemma loader_cases:
  obtains
    (no_path) "\<not> truthy filePath"
  | (open_error) p msg where "filePath = Some p" "p \<noteq> []" "open_error (fs p) = Some (JsError msg)"
  | (fstat_error) p msg where "filePath = Some p" "p \<noteq> []" "open_error (fs p) = None"
      "fstat_result (fs p) = Inl (JsError msg)"
  | (compare_error) p statbuf msg where "filePath = Some p" "p \<noteq> []"
      "open_error (fs p) = None" "fstat_result (fs p) = Inr statbuf"
      "statChanged statbuf (stat_of (fst (previous_entry st p))) = Inl (JsError msg)"
  | (unchanged) p statbuf where "filePath = Some p" "p \<noteq> []" "open_error (fs p) = None"
      "fstat_result (fs p) = Inr statbuf"
      "statChanged statbuf (stat_of (fst (previous_entry st p))) = Inr False"
  | (read_error) p statbuf msg where "filePath = Some p" "p \<noteq> []" "open_error (fs p) = None"
      "fstat_result (fs p) = Inr statbuf"
      "statChanged statbuf (stat_of (fst (previous_entry st p))) = Inr True"
      "read_result (fs p) = Inl (JsError msg)"
  | (parse_error) p statbuf content msg where "filePath = Some p" "p \<noteq> []"
      "open_error (fs p) = None" "fstat_result (fs p) = Inr statbuf"
      "statChanged statbuf (stat_of (fst (previous_entry st p))) = Inr True"
      "read_result (fs p) = Inr content" "parse (removeJsComments content) = Inl (JsError msg)"
  | (loaded) p statbuf content rc where "filePath = Some p" "p \<noteq> []"
      "open_error (fs p) = None" "fstat_result (fs p) = Inr statbuf"
      "statChanged statbuf (stat_of (fst (previous_entry st p))) = Inr True"
      "read_result (fs p) = Inr content" "parse (removeJsComments content) = Inr rc"
proof (cases "truthy filePath")
  case False
  then show ?thesis by (rule no_path)
next
  case True
  then obtain p where p: "filePath = Some p" "p \<noteq> []"
    by (auto simp: truthy_def split: option.splits)
  show ?thesis
  proof (cases "open_error (fs p)")
    case (Some err)
    then show ?thesis using p open_error by (cases err) auto
  next
    case None
    note opened = this
    show ?thesis
    proof (cases "fstat_result (fs p)")
      case (Inl err)
      then show ?thesis using p opened fstat_error by (cases err) auto
    next
      case (Inr statbuf)
      note statted = this
      show ?thesis
      proof (cases "statChanged statbuf (stat_of (fst (previous_entry st p)))")
        case (Inl err)
        then show ?thesis using p opened statted compare_error by (cases err) auto
      next
        case (Inr changed)
        note compared = this
        show ?thesis
        proof (cases changed)
          case False
          then show ?thesis using p opened statted compared unchanged by auto
        next
          case True
          with compared
          have changed: "statChanged statbuf (stat_of (fst (previous_entry st p))) = Inr True"
            by simp
          show ?thesis
          proof (cases "read_result (fs p)")
            case (Inl err)
            then show ?thesis using p opened statted changed read_error by (cases err) auto
          next
            case (Inr content)
            note was_read = this
            show ?thesis
            proof (cases "parse (removeJsComments content)")
              case (Inl err)
              then show ?thesis
                using p opened statted changed was_read parse_error by (cases err) auto
            next
              case (Inr rc)
              then show ?thesis
                using p opened statted changed was_read loaded by auto
            qed
          qed
        qed
      qed
    qed
  qed
qed

lemma getConfig_unfold:
  "getConfig parse fs filePath st =
     (cfg_of (fst (refreshConfig parse fs filePath st)),
      cache_put (snd (refreshConfig parse fs filePath st)) (js_string filePath)
        (fst (refreshConfig parse fs filePath st)))"
  by (simp add: getConfig_def case_prod_beta)

text \<open>After the assignment, \<^verbatim>\<open>_cache[filePath]\<close> is the value assigned.\<close>

lemma cache_get_put:
  "p \<noteq> ''__proto__'' \<Longrightarrow> cache_get (cache_put st p v) p = Some v"
  by (simp add: cache_get_def cache_put_def)


lemma cache_put_frame:
  "fs_calls (cache_put st p v) = fs_calls st"
  "open_fds (cache_put st p v) = open_fds st"
  "console (cache_put st p v) = console st"
  "allocated (cache_put st p v) = allocated st"
  by (simp_all add: cache_put_def split: cached.split)



text \<open>
  The value that \<^verbatim>\<open>_refreshConfig\<close> calls \<^verbatim>\<open>prev\<close> is found again at its path once it has been
  assigned there.
\<close>

lemma cache_get_put_previous:
  assumes "proto st' = proto st"
  shows "cache_get (cache_put st' p (fst (previous_entry st p))) p = Some (fst (previous_entry st p))"
proof (cases "p = ''__proto__''")
  case False
  then show ?thesis by (simp add: cache_get_put)
next
  case True
  show ?thesis
  proof (cases "proto st")
    case None
    then show ?thesis
      using True assms
      by (simp add: previous_entry_def cache_get_def cache_put_def cached_truthy_def)
  next
    case (Some e)
    then show ?thesis
      using True assms
      by (simp add: previous_entry_def cache_get_def cache_put_def cached_truthy_def)
  qed
qed

lemma stat_of_previous_entry:
  "stat_of (fst (previous_entry st p)) =
     (case cache_get st p of
        None \<Rightarrow> NoStat
      | Some v \<Rightarrow> if cached_truthy v then stat_of v else NoStat)"
  by (simp add: previous_entry_def empty_entry_def stat_of_def split: option.split)

subsection \<open>The configuration cache\<close>

text \<open>The definitions that evaluate a call of the loader on the sample values.\<close>

lemmas loader_eval =
  getConfig_def refreshConfig_def previous_entry_def empty_entry_def try_refresh_def openSync_def
  fstatSync_def readFileSync_def closeSync_def fresh_fd_def one_file_def no_file_def
  initial_state_def sample_stats_def parse_empty_object_def removeJsComments_def truthy_def
  js_string_def statChanged_def calls_during_def reads_file_def Let_def cache_get_def
  cache_put_def cached_truthy_def stat_of_def cfg_of_def with_stat_def
  object_prototype_names_def type_error_def two_files_def parse_sample_def snapshot_text_def
  quoted_def




text \<open>
  Claim C4 says that after a failed parse the stored snapshot is renewed, so that the next
  call on the unchanged file does not read it again. The \<^verbatim>\<open>catch\<close> clause returns \<^verbatim>\<open>prev\<close> as
  it is: for a file holding \<^verbatim>\<open>{\<close>, on a fresh process, the entry stored by the first call has
  no snapshot (not the one just read), and the second call reads the file again.
\<close>

theorem failed_parse_refreshes_snapshot_counterexample:
  "map_option stat_of
     (cache_get (snd (getConfig parse_empty_object (one_file ''.jshintrc'' sample_stats ''{'')
                        (Some ''.jshintrc'') initial_state)) ''.jshintrc'') \<noteq>
     Some (StoredStats sample_stats) \<and>
   reads_file (calls_during
     (snd (getConfig parse_empty_object (one_file ''.jshintrc'' sample_stats ''{'')
        (Some ''.jshintrc'') initial_state))
     (snd (getConfig parse_empty_object (one_file ''.jshintrc'' sample_stats ''{'')
        (Some ''.jshintrc'')
        (snd (getConfig parse_empty_object (one_file ''.jshintrc'' sample_stats ''{'')
           (Some ''.jshintrc'') initial_state)))))"
  by (simp add: loader_eval)

text \<open>
  Claim C4, amended. When the file can be opened and stat-read, the comparison of the
  snapshots calls for a reload, and the parser rejects the comment-stripped content, the
  value that \<^verbatim>\<open>_cache\<close> holds at the path afterwards is the one it held before, unmodified, or
  a new empty entry without snapshot when it held none (or a falsy one): the snapshot is not
  renewed. A second call on the same file therefore reads the content again and leaves the
  same value. The previous value, or the new empty entry, is likewise what \<^verbatim>\<open>_cache\<close> holds at
  the path, without any read, when the file cannot be opened. The value held before is what
  \<^verbatim>\<open>_cache[filePath]\<close> finds, be it an entry stored by the loader or a property that \<^verbatim>\<open>_cache\<close>
  inherits.
\<close>

theorem failed_parse_keeps_previous_entry:
  "(p \<noteq> [] \<and> open_error (fs p) = None \<and> fstat_result (fs p) = Inr statbuf \<and>
    statChanged statbuf
      (case cache_get st p of
         None \<Rightarrow> NoStat
       | Some v \<Rightarrow> if cached_truthy v then stat_of v else NoStat) = Inr True \<and>
    read_result (fs p) = Inr content \<and> parse (removeJsComments content) = Inl err \<longrightarrow>
      cache_get (snd (getConfig parse fs (Some p) st)) p =
        Some (case cache_get st p of
                None \<Rightarrow> Entry \<lparr>cfg = (allocated st, JObject []), stat = None\<rparr>
              | Some v \<Rightarrow>
                  if cached_truthy v then v
                  else Entry \<lparr>cfg = (allocated st, JObject []), stat = None\<rparr>) \<and>
      reads_file (calls_during st (snd (getConfig parse fs (Some p) st))) \<and>
      reads_file (calls_during (snd (getConfig parse fs (Some p) st))
        (snd (getConfig parse fs (Some p) (snd (getConfig parse fs (Some p) st))))) \<and>
      cache_get (snd (getConfig parse fs (Some p) (snd (getConfig parse fs (Some p) st)))) p =
        cache_get (snd (getConfig parse fs (Some p) st)) p) \<and>
   (p \<noteq> [] \<and> open_error (fs p) = Some err \<longrightarrow>
      cache_get (snd (getConfig parse fs (Some p) st)) p =
        Some (case cache_get st p of
                None \<Rightarrow> Entry \<lparr>cfg = (allocated st, JObject []), stat = None\<rparr>
              | Some v \<Rightarrow>
                  if cached_truthy v then v
                  else Entry \<lparr>cfg = (allocated st, JObject []), stat = None\<rparr>) \<and>
      \<not> reads_file (calls_during st (snd (getConfig parse fs (Some p) st))))"
proof (intro conjI impI)
  obtain msg where err: "err = JsError msg" by (cases err)
  let ?prev = "case cache_get st p of
                None \<Rightarrow> Entry \<lparr>cfg = (allocated st, JObject []), stat = None\<rparr>
              | Some v \<Rightarrow>
                  if cached_truthy v then v
                  else Entry \<lparr>cfg = (allocated st, JObject []), stat = None\<rparr>"
  have prev: "fst (previous_entry st p) = ?prev"
    by (simp add: previous_entry_def empty_entry_def split: option.split)
  {
    assume a: "p \<noteq> [] \<and> open_error (fs p) = None \<and> fstat_result (fs p) = Inr statbuf \<and>
      statChanged statbuf
        (case cache_get st p of
           None \<Rightarrow> NoStat
         | Some v \<Rightarrow> if cached_truthy v then stat_of v else NoStat) = Inr True \<and>
      read_result (fs p) = Inr content \<and> parse (removeJsComments content) = Inl err"
    let ?st1 = "snd (getConfig parse fs (Some p) st)"
    from a have p: "p \<noteq> []" and opened: "open_error (fs p) = None"
      and statted: "fstat_result (fs p) = Inr statbuf"
      and was_read: "read_result (fs p) = Inr content"
      and rejected: "parse (removeJsComments content) = Inl (JsError msg)"
      by (simp_all add: err)
    from a have changed: "statChanged statbuf (stat_of (fst (previous_entry st p))) = Inr True"
      by (simp add: stat_of_previous_entry)
    note first = refreshConfig_parse_error
      [where fs = fs and p = p and parse = parse and st = st,
       OF p opened statted changed was_read rejected]
    have stored': "cache_get ?st1 p = Some (fst (previous_entry st p))"
      unfolding getConfig_unfold first
      by (simp add: js_string_def cache_get_put_previous previous_entry_frame)
    then show stored: "cache_get ?st1 p = Some ?prev"
      by (simp only: prev)
    show "reads_file (calls_during st ?st1)"
      by (simp add: getConfig_unfold first cache_put_frame calls_during_def reads_file_def)
    have again: "previous_entry ?st1 p = (fst (previous_entry st p), ?st1)"
      using stored' previous_entry_truthy [of st p] by (rule previous_entry_found)
    have changed': "statChanged statbuf (stat_of (fst (previous_entry ?st1 p))) = Inr True"
      by (simp only: again fst_conv changed)
    note second = refreshConfig_parse_error
      [where fs = fs and p = p and parse = parse and st = ?st1,
       OF p opened statted changed' was_read rejected]
    show "reads_file (calls_during ?st1 (snd (getConfig parse fs (Some p) ?st1)))"
      unfolding getConfig_unfold [of parse fs "Some p" ?st1] second
      by (simp add: cache_put_frame calls_during_def reads_file_def)
    have "cache_get (snd (getConfig parse fs (Some p) ?st1)) p =
          Some (fst (previous_entry ?st1 p))"
      unfolding getConfig_unfold [of parse fs "Some p" ?st1] second
      by (simp add: js_string_def cache_get_put_previous previous_entry_frame)
    then show "cache_get (snd (getConfig parse fs (Some p) ?st1)) p = cache_get ?st1 p"
      by (simp only: again fst_conv stored')
  }
  {
    assume b: "p \<noteq> [] \<and> open_error (fs p) = Some err"
    then have p: "p \<noteq> []" and failed: "open_error (fs p) = Some (JsError msg)"
      by (simp_all add: err)
    note r = refreshConfig_open_error
      [where fs = fs and p = p and parse = parse and st = st, OF p failed]
    have "cache_get (snd (getConfig parse fs (Some p) st)) p = Some (fst (previous_entry st p))"
      unfolding getConfig_unfold r
      by (simp add: js_string_def cache_get_put_previous previous_entry_frame)
    then show "cache_get (snd (getConfig parse fs (Some p) st)) p = Some ?prev"
      by (simp only: prev)
    show "\<not> reads_file (calls_during st (snd (getConfig parse fs (Some p) st)))"
      by (simp add: getConfig_unfold r cache_put_frame calls_during_def reads_file_def)
  }
qed

text \<open>
  The malformed file of the counterexample: after the first call the entry is the empty one
  without snapshot, and the second call reads the file again. And the path \<^verbatim>\<open>constructor\<close>
  without a file: \<^verbatim>\<open>_cache\<close> holds there the function it inherits, before the call and after
  it.
\<close>

theorem failed_parse_keeps_previous_entry_witness:
  "''.jshintrc'' \<noteq> [] \<and>
   open_error (one_file ''.jshintrc'' sample_stats ''{'' ''.jshintrc'') = None \<and>
   fstat_result (one_file ''.jshintrc'' sample_stats ''{'' ''.jshintrc'') = Inr sample_stats \<and>
   statChanged sample_stats
     (case cache_get initial_state ''.jshintrc'' of
        None \<Rightarrow> NoStat
      | Some v \<Rightarrow> if cached_truthy v then stat_of v else NoStat) = Inr True \<and>
   read_result (one_file ''.jshintrc'' sample_stats ''{'' ''.jshintrc'') = Inr ''{'' \<and>
   parse_empty_object (removeJsComments ''{'') =
     Inl (JsError ''SyntaxError: Unexpected end of input'') \<and>
   cache_get (snd (getConfig parse_empty_object (one_file ''.jshintrc'' sample_stats ''{'')
                     (Some ''.jshintrc'') initial_state)) ''.jshintrc'' =
     Some (Entry \<lparr>cfg = (0, JObject []), stat = None\<rparr>) \<and>
   reads_file (calls_during
     (snd (getConfig parse_empty_object (one_file ''.jshintrc'' sample_stats ''{'')
        (Some ''.jshintrc'') initial_state))
     (snd (getConfig parse_empty_object (one_file ''.jshintrc'' sample_stats ''{'')
        (Some ''.jshintrc'')
        (snd (getConfig parse_empty_object (one_file ''.jshintrc'' sample_stats ''{'')
           (Some ''.jshintrc'') initial_state))))) \<and>
   ''constructor'' \<noteq> [] \<and>
   open_error ((\<lambda>p. no_file) ''constructor'') =
     Some (JsError ''Error: ENOENT, no such file or directory'') \<and>
   cache_get initial_state ''constructor'' = Some Inherited \<and>
   cache_get (snd (getConfig parse_empty_object (\<lambda>p. no_file) (Some ''constructor'')
                     initial_state)) ''constructor'' = Some Inherited"
  using failed_parse_keeps_previous_entry
          [of "''.jshintrc''" "one_file ''.jshintrc'' sample_stats ''{''" sample_stats
              initial_state "''{''" parse_empty_object
              "JsError ''SyntaxError: Unexpected end of input''"]
        failed_parse_keeps_previous_entry
          [of "''constructor''" "\<lambda>p. no_file" sample_stats
              initial_state "''{''" parse_empty_object
              "JsError ''Error: ENOENT, no such file or directory''"]
  by (simp add: loader_eval)

text \<open>
  Whatever fails while the file is loaded (\<^verbatim>\<open>openSync\<close> throws, as for a missing or unreadable
  file; \<^verbatim>\<open>fstatSync\<close> or \<^verbatim>\<open>readFileSync\<close> throws; the comparison of the snapshots throws; the
  parser rejects the comment-stripped content), \<^verbatim>\<open>getConfig\<close> still returns. Every exception is
  a value of the model, and each ends in the \<^verbatim>\<open>catch\<close> clause: the failure is written to the
  console, the value that \<^verbatim>\<open>_cache\<close> holds at the path is the previous one, or a new empty
  entry, no descriptor stays open, and what is returned is the \<^verbatim>\<open>cfg\<close> of that value.
\<close>

lemma load_failure_returns_previous:
  assumes "p \<noteq> []"
    and "open_error (fs p) = Some (JsError msg) \<or>
         open_error (fs p) = None \<and> fstat_result (fs p) = Inl (JsError msg) \<or>
         open_error (fs p) = None \<and> fstat_result (fs p) = Inr statbuf \<and>
           statChanged statbuf (stat_of (fst (previous_entry st p))) = Inl (JsError msg) \<or>
         open_error (fs p) = None \<and> fstat_result (fs p) = Inr statbuf \<and>
           statChanged statbuf (stat_of (fst (previous_entry st p))) = Inr True \<and>
           (read_result (fs p) = Inl (JsError msg) \<or>
            read_result (fs p) = Inr content \<and>
              parse (removeJsComments content) = Inl (JsError msg))"
  shows "fst (getConfig parse fs (Some p) st) = cfg_of (fst (previous_entry st p))"
    and "console (snd (getConfig parse fs (Some p) st)) =
           console st @ [LogStack (JsError msg), LogError (''Could not load jshintrc:'' @ msg)]"
    and "cache_get (snd (getConfig parse fs (Some p) st)) p = Some (fst (previous_entry st p))"
    and "open_fds (snd (getConfig parse fs (Some p) st)) = open_fds st"
proof -
  let ?goal = "fst (getConfig parse fs (Some p) st) = cfg_of (fst (previous_entry st p)) \<and>
    console (snd (getConfig parse fs (Some p) st)) =
      console st @ [LogStack (JsError msg), LogError (''Could not load jshintrc:'' @ msg)] \<and>
    cache_get (snd (getConfig parse fs (Some p) st)) p = Some (fst (previous_entry st p)) \<and>
    open_fds (snd (getConfig parse fs (Some p) st)) = open_fds st"
  note p = assms(1)
  from assms(2) consider
      (open_failed) "open_error (fs p) = Some (JsError msg)"
    | (fstat_failed) "open_error (fs p) = None" "fstat_result (fs p) = Inl (JsError msg)"
    | (compare_failed) "open_error (fs p) = None" "fstat_result (fs p) = Inr statbuf"
        "statChanged statbuf (stat_of (fst (previous_entry st p))) = Inl (JsError msg)"
    | (read_failed) "open_error (fs p) = None" "fstat_result (fs p) = Inr statbuf"
        "statChanged statbuf (stat_of (fst (previous_entry st p))) = Inr True"
        "read_result (fs p) = Inl (JsError msg)"
    | (parse_failed) "open_error (fs p) = None" "fstat_result (fs p) = Inr statbuf"
        "statChanged statbuf (stat_of (fst (previous_entry st p))) = Inr True"
        "read_result (fs p) = Inr content"
        "parse (removeJsComments content) = Inl (JsError msg)"
    by auto
  then have ?goal
  proof cases
    case open_failed
    show ?thesis
      unfolding getConfig_unfold refreshConfig_open_error
        [where fs = fs and p = p and parse = parse and st = st, OF p open_failed]
      by (simp add: previous_entry_frame js_string_def cache_put_frame cache_get_put_previous)
  next
    case fstat_failed
    show ?thesis
      unfolding getConfig_unfold refreshConfig_fstat_error
        [where fs = fs and p = p and parse = parse and st = st, OF p fstat_failed]
      by (simp add: previous_entry_frame js_string_def cache_put_frame cache_get_put_previous)
  next
    case compare_failed
    show ?thesis
      unfolding getConfig_unfold refreshConfig_compare_error
        [where fs = fs and p = p and parse = parse and st = st, OF p compare_failed]
      by (simp add: previous_entry_frame js_string_def cache_put_frame cache_get_put_previous)
  next
    case read_failed
    show ?thesis
      unfolding getConfig_unfold refreshConfig_read_error
        [where fs = fs and p = p and parse = parse and st = st, OF p read_failed]
      by (simp add: previous_entry_frame js_string_def cache_put_frame cache_get_put_previous)
  next
    case parse_failed
    show ?thesis
      unfolding getConfig_unfold
        refreshConfig_parse_error
        [where fs = fs and p = p and parse = parse and st = st, OF p parse_failed]
      by (simp add: previous_entry_frame js_string_def cache_put_frame cache_get_put_previous)
  qed
  then show "fst (getConfig parse fs (Some p) st) = cfg_of (fst (previous_entry st p))"
    and "console (snd (getConfig parse fs (Some p) st)) =
           console st @ [LogStack (JsError msg), LogError (''Could not load jshintrc:'' @ msg)]"
    and "cache_get (snd (getConfig parse fs (Some p) st)) p = Some (fst (previous_entry st p))"
    and "open_fds (snd (getConfig parse fs (Some p) st)) = open_fds st"
    by simp_all
qed

text \<open>
  When \<^verbatim>\<open>_cache\<close> holds an entry at the path, the configuration returned after a failure is
  that of the entry; when it holds nothing there, a new empty configuration.
\<close>

lemma load_failure_previous_config:
  "cache_get st p = Some (Entry e) \<Longrightarrow> cfg_of (fst (previous_entry st p)) = Config (cfg e)"
  "cache_get st p = None \<Longrightarrow>
     cfg_of (fst (previous_entry st p)) = Config (allocated st, JObject [])"
  by (simp_all add: previous_entry_def empty_entry_def cfg_of_def cached_truthy_def)

text \<open>
  Claim C5 is about every path: after a failed load \<^verbatim>\<open>getConfig\<close> returns the configuration
  cached for the path, or an empty configuration when none was cached. For the paths that
  name a member of \<^verbatim>\<open>Object.prototype\<close> the code returns neither. A fresh process is asked for
  \<^verbatim>\<open>jshintrc=constructor\<close> and there is no such file: \<^verbatim>\<open>_cache["constructor"]\<close> is the function
  that every object inherits, so no empty entry is made; \<^verbatim>\<open>openSync\<close> throws, the \<^verbatim>\<open>catch\<close>
  clause logs the failure and returns that function, and \<^verbatim>\<open>_getConfig\<close> returns its \<^verbatim>\<open>cfg\<close>,
  which is \<^verbatim>\<open>undefined\<close>. The comment above \<^verbatim>\<open>_refreshConfig\<close> promises a config object and its
  \<^verbatim>\<open>fs.Stats\<close>, and the default \<^verbatim>\<open>{cfg: {}, stat: null}\<close> on the same line is what the code means
  to use when nothing was cached.
\<close>

theorem load_failure_at_inherited_name:
  "cache initial_state ''constructor'' = None \<and>
   open_error ((\<lambda>p. no_file) ''constructor'') =
     Some (JsError ''Error: ENOENT, no such file or directory'') \<and>
   fst (refreshConfig parse_empty_object (\<lambda>p. no_file) (Some ''constructor'') initial_state) =
     Inherited \<and>
   fst (getConfig parse_empty_object (\<lambda>p. no_file) (Some ''constructor'') initial_state) =
     Undefined \<and>
   console (snd (getConfig parse_empty_object (\<lambda>p. no_file) (Some ''constructor'')
                   initial_state)) =
     [LogStack (JsError ''Error: ENOENT, no such file or directory''),
      LogError ''Could not load jshintrc:Error: ENOENT, no such file or directory'']"
  by (simp add: loader_eval)

text \<open>
  Claim C9. A call of the loader leaves the table of open descriptors as it found it. When
  it opens the configuration file, the descriptor that \<^verbatim>\<open>openSync\<close> returned is closed by the
  last file system call of the loader, whatever \<^verbatim>\<open>fstatSync\<close>, \<^verbatim>\<open>readFileSync\<close> and the parser
  do in between: on a successful reload, on unchanged metadata and on every error. When
  \<^verbatim>\<open>openSync\<close> throws, or no path is given, no descriptor is opened and none is closed.
\<close>

theorem loader_closes_descriptor:
  "open_fds (snd (refreshConfig parse fs filePath st)) = open_fds st \<and>
   (truthy filePath \<and> open_error (fs (js_string filePath)) = None \<longrightarrow>
      (\<exists>middle. calls_during st (snd (refreshConfig parse fs filePath st)) =
          OpenSync (js_string filePath) # middle @ [CloseSync (fresh_fd (open_fds st))] \<and>
          set middle \<subseteq> {FstatSync (fresh_fd (open_fds st)), ReadFileSync (fresh_fd (open_fds st))})) \<and>
   (truthy filePath \<and> open_error (fs (js_string filePath)) \<noteq> None \<longrightarrow>
      calls_during st (snd (refreshConfig parse fs filePath st)) = [OpenSync (js_string filePath)]) \<and>
   (\<not> truthy filePath \<longrightarrow> calls_during st (snd (refreshConfig parse fs filePath st)) = [])"
proof (cases rule: loader_cases [where filePath = filePath and fs = fs and st = st and parse = parse])
  case no_path
  then show ?thesis
    by (simp add: refreshConfig_no_path calls_during_def)
next
  case (open_error p msg)
  then show ?thesis
    by (simp add: refreshConfig_open_error calls_during_def previous_entry_frame truthy_def
          js_string_def)
next
  case (fstat_error p msg)
  then show ?thesis
    by (simp add: refreshConfig_fstat_error calls_during_def truthy_def js_string_def)
next
  case (compare_error p statbuf msg)
  then show ?thesis
    by (simp add: refreshConfig_compare_error calls_during_def truthy_def js_string_def)
next
  case (unchanged p statbuf)
  then show ?thesis
    by (simp add: refreshConfig_unchanged calls_during_def truthy_def js_string_def)
next
  case (read_error p statbuf msg)
  then show ?thesis
    by (simp add: refreshConfig_read_error calls_during_def truthy_def js_string_def)
next
  case (parse_error p statbuf content msg)
  then show ?thesis
    by (simp add: refreshConfig_parse_error calls_during_def truthy_def js_string_def)
next
  case (loaded p statbuf content rc)
  then show ?thesis
    by (simp add: refreshConfig_loaded calls_during_def truthy_def js_string_def)
qed

text \<open>
  A malformed file on a fresh process: the descriptor 3 is opened, stat-read, read and
  closed, and no descriptor is open afterwards.
\<close>

theorem loader_closes_descriptor_witness:
  "truthy (Some ''.jshintrc'') \<and>
   open_error (one_file ''.jshintrc'' sample_stats ''{'' (js_string (Some ''.jshintrc''))) = None \<and>
   open_fds (snd (refreshConfig parse_empty_object (one_file ''.jshintrc'' sample_stats ''{'')
      (Some ''.jshintrc'') initial_state)) = [] \<and>
   calls_during initial_state
     (snd (refreshConfig parse_empty_object (one_file ''.jshintrc'' sample_stats ''{'')
        (Some ''.jshintrc'') initial_state)) =
     [OpenSync ''.jshintrc'', FstatSync 3, ReadFileSync 3, CloseSync 3]"
  using loader_closes_descriptor
          [of parse_empty_object "one_file ''.jshintrc'' sample_stats ''{''" "Some ''.jshintrc''"
              initial_state]
  by (simp add: loader_eval)

subsection \<open>The request handler\<close>

lemma toUpperCase_no_lower:
  assumes "\<forall>c \<in> set s. c \<notin> set ''abcdefghijklmnopqrstuvwxyz''"
  shows "toUpperCase s = s"
proof -
  have len: "length ''abcdefghijklmnopqrstuvwxyz'' = length ''ABCDEFGHIJKLMNOPQRSTUVWXYZ''"
    by simp
  have none: "map_of (zip ''abcdefghijklmnopqrstuvwxyz'' ''ABCDEFGHIJKLMNOPQRSTUVWXYZ'') c = None"
    if "c \<in> set s" for c
  proof -
    from assms that have "c \<notin> set ''abcdefghijklmnopqrstuvwxyz''" by (rule bspec)
    then show ?thesis by (rule map_of_zip_is_None [OF len, THEN iffD2])
  qed
  show ?thesis
    unfolding toUpperCase_def
  proof (rule map_idI)
    fix c
    assume "c \<in> set s"
    then show "(case map_of (zip ''abcdefghijklmnopqrstuvwxyz'' ''ABCDEFGHIJKLMNOPQRSTUVWXYZ'') c of
                  None \<Rightarrow> c | Some u \<Rightarrow> u) = c"
      by (simp only: none option.case)
  qed
qed

text \<open>
  The two fields as the handler normalises them.
\<close>

lemma request_mode_cases:
  "request_mode f = (if mode f = Some ''jslint'' then ''jslint'' else ''jshint'')"
  by (auto simp: request_mode_def truthy_def)

lemma request_showCode_iff: "request_showCode f \<longleftrightarrow> showCode f = Some ''1''"
  by (auto simp: request_showCode_def truthy_def)

text \<open>
  Claim C6. A \<^verbatim>\<open>POST /check\<close> is answered by running one linter on the \<^verbatim>\<open>source\<close> field and the
  configuration that \<^verbatim>\<open>getConfig\<close> returns for the \<^verbatim>\<open>jshintrc\<close> field: JSLint exactly when the
  \<^verbatim>\<open>mode\<close> field is present and is the string \<^verbatim>\<open>jslint\<close>, and JSHint for every other value and
  for an absent field. The response has status 200 and type \<^verbatim>\<open>text/plain\<close>; its body is the
  one-line report when that linter passes, and otherwise the report of its findings, with
  the evidence shown exactly when the \<^verbatim>\<open>showCode\<close> field is present and is the string \<^verbatim>\<open>1\<close>.
  The console names the linter chosen before the run and the time taken after it. A
  request without the \<^verbatim>\<open>mode\<close> field is handled exactly like the same request with \<^verbatim>\<open>mode\<close>
  \<^verbatim>\<open>jshint\<close>: the same response and the same state.
\<close>

theorem mode_and_showCode_normalised:
  "(url req = ''/check'' \<and> toUpperCase (http_method req) = ''POST'' \<longrightarrow>
      handle_request hs parse fs clock req f st =
        (case getConfig parse fs (jshintrc f)
                (st\<lparr>console := console st @
                     [Log (''Applying '' @ [CHR 0x27] @
                           (if mode f = Some ''jslint'' then ''jslint'' else ''jshint'') @
                           [CHR 0x27] @ '' to: '' @
                           (case filename f of
                              None \<Rightarrow> ''anonymous''
                            | Some n \<Rightarrow> if n = [] then ''anonymous'' else n))]\<rparr>) of
           (config, st2) \<Rightarrow>
             (case (if mode f = Some ''jslint'' then jslint hs else jshint hs) (source f) config of
                (passed, errors) \<Rightarrow>
                  (Some \<lparr>status = 200, headers = [(''Content-Type'', ''text/plain'')],
                         body =
                           (if passed
                            then ''js: No problems found in '' @ js_string (filename f) @ newline
                            else outputErrors errors (showCode f = Some ''1''))\<rparr>,
                   st2\<lparr>console := console st2 @
                         [Log (''Took '' @ string_of_int (snd clock - fst clock) @
                               ''ms to lint '' @
                               (case filename f of
                                  None \<Rightarrow> ''anonymous''
                                | Some n \<Rightarrow> if n = [] then ''anonymous'' else n))]\<rparr>)))) \<and>
   handle_request hs parse fs clock req (f\<lparr>mode := None\<rparr>) st =
     handle_request hs parse fs clock req (f\<lparr>mode := Some ''jshint''\<rparr>) st"
proof (intro conjI impI)
  have name: "or_else (filename f) ''anonymous'' =
      (case filename f of None \<Rightarrow> ''anonymous'' | Some n \<Rightarrow> if n = [] then ''anonymous'' else n)"
    by (simp add: or_else_def truthy_def split: option.split)
  assume "url req = ''/check'' \<and> toUpperCase (http_method req) = ''POST''"
  then have "handle_request hs parse fs clock req f st = check_form hs parse fs clock f st"
    by (simp add: handle_request_def)
  also have "\<dots> =
        (case getConfig parse fs (jshintrc f)
                (st\<lparr>console := console st @
                     [Log (''Applying '' @ [CHR 0x27] @
                           (if mode f = Some ''jslint'' then ''jslint'' else ''jshint'') @
                           [CHR 0x27] @ '' to: '' @
                           (case filename f of
                              None \<Rightarrow> ''anonymous''
                            | Some n \<Rightarrow> if n = [] then ''anonymous'' else n))]\<rparr>) of
           (config, st2) \<Rightarrow>
             (case (if mode f = Some ''jslint'' then jslint hs else jshint hs) (source f) config of
                (passed, errors) \<Rightarrow>
                  (Some \<lparr>status = 200, headers = [(''Content-Type'', ''text/plain'')],
                         body =
                           (if passed
                            then ''js: No problems found in '' @ js_string (filename f) @ newline
                            else outputErrors errors (showCode f = Some ''1''))\<rparr>,
                   st2\<lparr>console := console st2 @
                         [Log (''Took '' @ string_of_int (snd clock - fst clock) @
                               ''ms to lint '' @
                               (case filename f of
                                  None \<Rightarrow> ''anonymous''
                                | Some n \<Rightarrow> if n = [] then ''anonymous'' else n))]\<rparr>)))"
    unfolding check_form_def Let_def name request_mode_cases
    by (cases "mode f = Some ''jslint''")
       (simp_all add: lintify_def hinter_def request_showCode_iff split: prod.split)
  finally show "handle_request hs parse fs clock req f st =
        (case getConfig parse fs (jshintrc f)
                (st\<lparr>console := console st @
                     [Log (''Applying '' @ [CHR 0x27] @
                           (if mode f = Some ''jslint'' then ''jslint'' else ''jshint'') @
                           [CHR 0x27] @ '' to: '' @
                           (case filename f of
                              None \<Rightarrow> ''anonymous''
                            | Some n \<Rightarrow> if n = [] then ''anonymous'' else n))]\<rparr>) of
           (config, st2) \<Rightarrow>
             (case (if mode f = Some ''jslint'' then jslint hs else jshint hs) (source f) config of
                (passed, errors) \<Rightarrow>
                  (Some \<lparr>status = 200, headers = [(''Content-Type'', ''text/plain'')],
                         body =
                           (if passed
                            then ''js: No problems found in '' @ js_string (filename f) @ newline
                            else outputErrors errors (showCode f = Some ''1''))\<rparr>,
                   st2\<lparr>console := console st2 @
                         [Log (''Took '' @ string_of_int (snd clock - fst clock) @
                               ''ms to lint '' @
                               (case filename f of
                                  None \<Rightarrow> ''anonymous''
                                | Some n \<Rightarrow> if n = [] then ''anonymous'' else n))]\<rparr>)))" .
next
  have m: "request_mode (f\<lparr>mode := None\<rparr>) = request_mode (f\<lparr>mode := Some ''jshint''\<rparr>)"
    by (simp add: request_mode_def truthy_def)
  have s: "request_showCode (f\<lparr>mode := a\<rparr>) = request_showCode f" for a
    by (simp add: request_showCode_def)
  have "check_form hs parse fs clock (f\<lparr>mode := None\<rparr>) st =
        check_form hs parse fs clock (f\<lparr>mode := Some ''jshint''\<rparr>) st"
    by (simp add: check_form_def m s case_prod_beta cong: option.case_cong)
  then show "handle_request hs parse fs clock req (f\<lparr>mode := None\<rparr>) st =
     handle_request hs parse fs clock req (f\<lparr>mode := Some ''jshint''\<rparr>) st"
    by (simp add: handle_request_def)
qed

text \<open>
  Three requests \<^verbatim>\<open>POST /check\<close> on the sample linters, of which JSHint reports a finding and
  JSLint passes: with \<^verbatim>\<open>mode=jslint\<close> the answer is the report of JSLint; with \<^verbatim>\<open>mode=JSLint\<close> and
  \<^verbatim>\<open>showCode=1\<close> it is the report of JSHint with the evidence; without the two fields, and with
  \<^verbatim>\<open>showCode=true\<close>, it is the report of JSHint without the evidence.
\<close>

theorem mode_and_showCode_normalised_witness:
  "url \<lparr>url = ''/check'', http_method = ''POST''\<rparr> = ''/check'' \<and>
   toUpperCase (http_method \<lparr>url = ''/check'', http_method = ''POST''\<rparr>) = ''POST'' \<and>
   fst (handle_request sample_hinters parse_empty_object (\<lambda>p. no_file) (0, 7)
          \<lparr>url = ''/check'', http_method = ''POST''\<rparr>
          \<lparr>source = Some ''foo()'', filename = Some ''my.js'', mode = Some ''jslint'',
            showCode = Some ''1'', jshintrc = None\<rparr>
          initial_state) =
     Some \<lparr>status = 200, headers = [(''Content-Type'', ''text/plain'')],
            body = ''js: No problems found in my.js'' @ newline\<rparr> \<and>
   fst (handle_request sample_hinters parse_empty_object (\<lambda>p. no_file) (0, 7)
          \<lparr>url = ''/check'', http_method = ''POST''\<rparr>
          \<lparr>source = Some ''foo()'', filename = Some ''my.js'', mode = Some ''JSLint'',
            showCode = Some ''1'', jshintrc = None\<rparr>
          initial_state) =
     Some \<lparr>status = 200, headers = [(''Content-Type'', ''text/plain'')],
            body = ''Lint at line 3 character 5: Missing semicolon'' @ newline @ ''foo();'' @
                   newline @ newline\<rparr> \<and>
   fst (handle_request sample_hinters parse_empty_object (\<lambda>p. no_file) (0, 7)
          \<lparr>url = ''/check'', http_method = ''POST''\<rparr>
          \<lparr>source = Some ''foo()'', filename = Some ''my.js'', mode = None,
            showCode = None, jshintrc = None\<rparr>
          initial_state) =
     Some \<lparr>status = 200, headers = [(''Content-Type'', ''text/plain'')],
            body = ''Lint at line 3 character 5: Missing semicolon'' @ newline\<rparr> \<and>
   fst (handle_request sample_hinters parse_empty_object (\<lambda>p. no_file) (0, 7)
          \<lparr>url = ''/check'', http_method = ''POST''\<rparr>
          \<lparr>source = Some ''foo()'', filename = Some ''my.js'', mode = Some ''jshint'',
            showCode = Some ''true'', jshintrc = None\<rparr>
          initial_state) =
     Some \<lparr>status = 200, headers = [(''Content-Type'', ''text/plain'')],
            body = ''Lint at line 3 character 5: Missing semicolon'' @ newline\<rparr> \<and>
   console (snd (handle_request sample_hinters parse_empty_object (\<lambda>p. no_file) (0, 7)
          \<lparr>url = ''/check'', http_method = ''POST''\<rparr>
          \<lparr>source = Some ''foo()'', filename = Some ''my.js'', mode = Some ''jslint'',
            showCode = Some ''1'', jshintrc = None\<rparr>
          initial_state)) =
     [Log (''Applying '' @ [CHR 0x27] @ ''jslint'' @ [CHR 0x27] @ '' to: my.js''),
      Log ''Took 7ms to lint my.js'']"
  using mode_and_showCode_normalised
          [of "\<lparr>url = ''/check'', http_method = ''POST''\<rparr>" sample_hinters parse_empty_object
              "\<lambda>p. no_file" "(0, 7)"
              "\<lparr>source = Some ''foo()'', filename = Some ''my.js'', mode = Some ''jslint'',
                showCode = Some ''1'', jshintrc = None\<rparr>" initial_state]
        mode_and_showCode_normalised
          [of "\<lparr>url = ''/check'', http_method = ''POST''\<rparr>" sample_hinters parse_empty_object
              "\<lambda>p. no_file" "(0, 7)"
              "\<lparr>source = Some ''foo()'', filename = Some ''my.js'', mode = Some ''JSLint'',
                showCode = Some ''1'', jshintrc = None\<rparr>" initial_state]
        mode_and_showCode_normalised
          [of "\<lparr>url = ''/check'', http_method = ''POST''\<rparr>" sample_hinters parse_empty_object
              "\<lambda>p. no_file" "(0, 7)"
              "\<lparr>source = Some ''foo()'', filename = Some ''my.js'', mode = None,
                showCode = None, jshintrc = None\<rparr>" initial_state]
        mode_and_showCode_normalised
          [of "\<lparr>url = ''/check'', http_method = ''POST''\<rparr>" sample_hinters parse_empty_object
              "\<lambda>p. no_file" "(0, 7)"
              "\<lparr>source = Some ''foo()'', filename = Some ''my.js'', mode = Some ''jshint'',
                showCode = Some ''true'', jshintrc = None\<rparr>" initial_state]
  by (simp add: toUpperCase_def sample_hinters_def outputErrors_blocks finding_block_def
        trim_def is_space_def string_of_int_def string_of_nat.simps digit_char_def loader_eval)

text \<open>
  Claim C7. A request whose URL is not exactly \<^verbatim>\<open>/check\<close>, or whose method is not POST (the
  handler compares the method in upper case), is answered with status 200, the header
  \<^verbatim>\<open>Content-Type: text/plain\<close> and the body \<^verbatim>\<open>hello from jshint-mode\<close>, and the state of the
  process is left as it was. For a method without lower-case letters, as the HTTP parser
  delivers it, the comparison is with \<^verbatim>\<open>POST\<close> itself.
\<close>

theorem other_requests_get_greeting:
  "(url req \<noteq> ''/check'' \<or> toUpperCase (http_method req) \<noteq> ''POST'' \<longrightarrow>
      handle_request hs parse fs clock req f st =
        (Some \<lparr>status = 200, headers = [(''Content-Type'', ''text/plain'')],
                body = ''hello from jshint-mode''\<rparr>, st)) \<and>
   ((\<forall>c \<in> set (http_method req). c \<notin> set ''abcdefghijklmnopqrstuvwxyz'') \<and>
    (url req \<noteq> ''/check'' \<or> http_method req \<noteq> ''POST'') \<longrightarrow>
      handle_request hs parse fs clock req f st =
        (Some \<lparr>status = 200, headers = [(''Content-Type'', ''text/plain'')],
                body = ''hello from jshint-mode''\<rparr>, st))"
proof (intro conjI impI)
  assume "url req \<noteq> ''/check'' \<or> toUpperCase (http_method req) \<noteq> ''POST''"
  then show "handle_request hs parse fs clock req f st =
        (Some \<lparr>status = 200, headers = [(''Content-Type'', ''text/plain'')],
                body = ''hello from jshint-mode''\<rparr>, st)"
    by (auto simp: handle_request_def)
next
  assume a: "(\<forall>c \<in> set (http_method req). c \<notin> set ''abcdefghijklmnopqrstuvwxyz'') \<and>
    (url req \<noteq> ''/check'' \<or> http_method req \<noteq> ''POST'')"
  then have "toUpperCase (http_method req) = http_method req"
    by (simp add: toUpperCase_no_lower)
  with a show "handle_request hs parse fs clock req f st =
        (Some \<lparr>status = 200, headers = [(''Content-Type'', ''text/plain'')],
                body = ''hello from jshint-mode''\<rparr>, st)"
    by (auto simp: handle_request_def)
qed

text \<open>\<^verbatim>\<open>GET /\<close> and \<^verbatim>\<open>GET /check\<close> on a fresh process.\<close>

theorem other_requests_get_greeting_witness:
  "url \<lparr>url = ''/'', http_method = ''GET''\<rparr> \<noteq> ''/check'' \<and>
   toUpperCase (http_method \<lparr>url = ''/check'', http_method = ''GET''\<rparr>) \<noteq> ''POST'' \<and>
   handle_request sample_hinters parse_empty_object (\<lambda>p. no_file) (0, 1)
       \<lparr>url = ''/'', http_method = ''GET''\<rparr>
       \<lparr>source = None, filename = None, mode = None, showCode = None, jshintrc = None\<rparr>
       initial_state =
     (Some \<lparr>status = 200, headers = [(''Content-Type'', ''text/plain'')],
             body = ''hello from jshint-mode''\<rparr>, initial_state) \<and>
   handle_request sample_hinters parse_empty_object (\<lambda>p. no_file) (0, 1)
       \<lparr>url = ''/check'', http_method = ''GET''\<rparr>
       \<lparr>source = None, filename = None, mode = None, showCode = None, jshintrc = None\<rparr>
       initial_state =
     (Some \<lparr>status = 200, headers = [(''Content-Type'', ''text/plain'')],
             body = ''hello from jshint-mode''\<rparr>, initial_state)"
  using other_requests_get_greeting
          [of "\<lparr>url = ''/'', http_method = ''GET''\<rparr>" sample_hinters parse_empty_object
              "\<lambda>p. no_file" "(0, 1)"
              "\<lparr>source = None, filename = None, mode = None, showCode = None, jshintrc = None\<rparr>"
              initial_state]
        other_requests_get_greeting
          [of "\<lparr>url = ''/check'', http_method = ''GET''\<rparr>" sample_hinters parse_empty_object
              "\<lambda>p. no_file" "(0, 1)"
              "\<lparr>source = None, filename = None, mode = None, showCode = None, jshintrc = None\<rparr>"
              initial_state]
  by (simp add: toUpperCase_def)

text \<open>
  A whole request: \<^verbatim>\<open>POST /check\<close> with \<^verbatim>\<open>showCode=1\<close> and no \<^verbatim>\<open>jshintrc\<close>, on the sample
  linters, is answered with the report of JSHint.
\<close>

lemma check_request_example:
  "fst (handle_request sample_hinters parse_empty_object (\<lambda>p. no_file) (0, 7)
          \<lparr>url = ''/check'', http_method = ''POST''\<rparr>
          \<lparr>source = Some ''foo()'', filename = Some ''my.js'', mode = None, showCode = Some ''1'',
            jshintrc = None\<rparr>
          initial_state) =
     Some \<lparr>status = 200, headers = [(''Content-Type'', ''text/plain'')],
            body = ''Lint at line 3 character 5: Missing semicolon'' @ newline @ ''foo();'' @
                   newline @ newline\<rparr>"
  by (simp add: handle_request_def check_form_def toUpperCase_def request_mode_def
        request_showCode_def lintify_def hinter_def sample_hinters_def outputErrors_blocks
        finding_block_def trim_def is_space_def string_of_int_def string_of_nat.simps
        digit_char_def loader_eval)

section \<open>Further properties\<close>

text \<open>
  Without a path (the \<^verbatim>\<open>jshintrc\<close> field absent or empty) \<^verbatim>\<open>getConfig\<close> returns a new empty
  configuration and touches neither the file system nor the console.
\<close>

theorem no_path_no_file_access:
  "\<not> truthy filePath \<longrightarrow>
     fst (getConfig parse fs filePath st) = Config (allocated st, JObject []) \<and>
     calls_during st (snd (getConfig parse fs filePath st)) = [] \<and>
     open_fds (snd (getConfig parse fs filePath st)) = open_fds st \<and>
     console (snd (getConfig parse fs filePath st)) = console st"
  by (simp add: getConfig_unfold refreshConfig_no_path calls_during_def cfg_of_def
        cache_put_frame)

theorem no_path_no_file_access_witness:
  "\<not> truthy None \<and> \<not> truthy (Some '''') \<and>
   fst (getConfig parse_empty_object (one_file ''.jshintrc'' sample_stats ''{}'') None
          initial_state) = Config (0, JObject []) \<and>
   fs_calls (snd (getConfig parse_empty_object (one_file ''.jshintrc'' sample_stats ''{}'')
                    (Some '''') initial_state)) = []"
  using no_path_no_file_access
          [of None parse_empty_object "one_file ''.jshintrc'' sample_stats ''{}''" initial_state]
        no_path_no_file_access
          [of "Some ''''" parse_empty_object "one_file ''.jshintrc'' sample_stats ''{}''"
              initial_state]
  by (simp add: loader_eval)

text \<open>
  The replacement applied to the evidence, \<^verbatim>\<open>.replace(/^\s*(\S*(\s+\S+)*)\s*$/, "$1")\<close>, returns
  its input without the leading and the trailing white space, for every input.
\<close>

theorem evidence_regex_trims:
  "replace_trim s = rev (dropWhile is_space (rev (dropWhile is_space s)))"
  using replace_trim_is_trim [of s] by (simp add: trim_def)

theorem evidence_regex_trims_witness:
  "replace_trim ''  var a  =  1;   '' = ''var a  =  1;''"
  using evidence_regex_trims [of "''  var a  =  1;   ''"] by (simp add: is_space_def)

text \<open>
  A bind error other than \<^verbatim>\<open>EADDRINUSE\<close> changes nothing: the handler neither retries, nor
  logs, nor exits.
\<close>

theorem other_bind_errors_ignored:
  "errno err \<noteq> ErrnoName ''EADDRINUSE'' \<longrightarrow> on_error sv err = sv"
  by (simp add: on_error_def)

theorem other_bind_errors_ignored_witness:
  "errno \<lparr>errno = ErrnoName ''EACCES'', code = ''EACCES'', syscall = ''listen''\<rparr> \<noteq> ErrnoName ''EADDRINUSE'' \<and>
   on_error (start 80 90 ''127.0.0.1'')
       \<lparr>errno = ErrnoName ''EACCES'', code = ''EACCES'', syscall = ''listen''\<rparr> =
     start 80 90 ''127.0.0.1''"
  using other_bind_errors_ignored
          [of "\<lparr>errno = ErrnoName ''EACCES'', code = ''EACCES'', syscall = ''listen''\<rparr>"
              "start 80 90 ''127.0.0.1''"]
  by simp

end
